theory Spec2Isabelle
  imports Main "HOL-Library.Sublist"
begin

section \<open>JavaScript values, strings and thrown objects\<close>

text \<open>
  The edge function \<^verbatim>\<open>run-evaluations\<close> is TypeScript running on Deno. The values it
  handles at run time (database columns of type jsonb, bodies of HTTP responses decoded
  by \<^verbatim>\<open>JSON.parse\<close>, the result of \<^verbatim>\<open>Map.get\<close>) are JavaScript values. \<open>jsval\<close>
  covers the values that JSON can carry, and \<open>undefined\<close>. Numbers are restricted to
  integers (floating point is not modelled). \<open>JObj\<close> lists the own properties of an
  object in enumeration order.
\<close>

datatype jsval =
    JUndefined
  | JNull
  | JBool bool
  | JNum int
  | JStr string
  | JArr "jsval list"
  | JObj "(string \<times> jsval) list"

text \<open>
  What a \<^verbatim>\<open>throw\<close> can carry: an instance of \<^verbatim>\<open>Error\<close> (with its \<^verbatim>\<open>name\<close> and
  \<^verbatim>\<open>message\<close>), or any other value (the supabase client reports a failed query as a
  plain object, which the code throws as it is). The message of a TypeError or a
  SyntaxError raised by the runtime is the engine's own; a fixed text stands for it.
\<close>

datatype thrown = JsError string string | JsThrown jsval

definition TypeError :: "string \<Rightarrow> thrown" where
  "TypeError msg = JsError ''TypeError'' msg"

definition SyntaxError :: "string \<Rightarrow> thrown" where
  "SyntaxError msg = JsError ''SyntaxError'' msg"

text \<open>\<^verbatim>\<open>new Error(msg)\<close>\<close>

definition new_Error :: "string \<Rightarrow> thrown" where
  "new_Error msg = JsError ''Error'' msg"

text \<open>\<^verbatim>\<open>error instanceof Error ? error.message : 'Unknown error'\<close>\<close>

fun message_or_unknown :: "thrown \<Rightarrow> string" where
  "message_or_unknown (JsError n m) = m"
| "message_or_unknown (JsThrown v) = ''Unknown error''"

text \<open>Truthiness, as \<^verbatim>\<open>!x\<close>, \<^verbatim>\<open>x || y\<close> and \<^verbatim>\<open>x && y\<close> test it.\<close>

fun truthy :: "jsval \<Rightarrow> bool" where
  "truthy JUndefined = False"
| "truthy JNull = False"
| "truthy (JBool b) = b"
| "truthy (JNum n) = (n \<noteq> 0)"
| "truthy (JStr s) = (s \<noteq> [])"
| "truthy (JArr xs) = True"
| "truthy (JObj kvs) = True"

text \<open>\<^verbatim>\<open>s.includes(t)\<close> on strings: \<open>t\<close> occurs in \<open>s\<close> as a contiguous block.\<close>

definition str_includes :: "string \<Rightarrow> string \<Rightarrow> bool" where
  "str_includes s t = sublist t s"

text \<open>\<^verbatim>\<open>xs.join(sep)\<close> on a list of strings.\<close>

fun join :: "string \<Rightarrow> string list \<Rightarrow> string" where
  "join sep [] = []"
| "join sep [x] = x"
| "join sep (x # y # ys) = x @ sep @ join sep (y # ys)"

text \<open>Decimal rendering of a number, as \<^verbatim>\<open>String(n)\<close> gives it for an integer.\<close>

fun show_nat :: "nat \<Rightarrow> string" where
  "show_nat n = (if n < 10 then [''0123456789'' ! n]
                 else show_nat (n div 10) @ [''0123456789'' ! (n mod 10)])"

declare show_nat.simps [simp del]

definition show_int :: "int \<Rightarrow> string" where
  "show_int i = (if i < 0 then ''-'' @ show_nat (nat (- i)) else show_nat (nat i))"

text \<open>
  \<^verbatim>\<open>String(v)\<close>, the conversion a template literal applies to an interpolated value.
  Inside \<^verbatim>\<open>Array.prototype.join\<close>, \<open>null\<close> and \<open>undefined\<close> render as the empty
  string.
\<close>

fun js_to_string :: "jsval \<Rightarrow> string" where
  "js_to_string JUndefined = ''undefined''"
| "js_to_string JNull = ''null''"
| "js_to_string (JBool b) = (if b then ''true'' else ''false'')"
| "js_to_string (JNum n) = show_int n"
| "js_to_string (JStr s) = s"
| "js_to_string (JArr xs) =
     join '','' (map (\<lambda>x. if x = JUndefined \<or> x = JNull then [] else js_to_string x) xs)"
| "js_to_string (JObj kvs) = ''[object Object]''"

text \<open>\<^verbatim>\<open>s.toLowerCase()\<close> on the ASCII letters.\<close>

fun lower_char :: "char \<Rightarrow> char" where
  "lower_char (Char b0 b1 b2 b3 b4 b5 b6 b7) =
     (let n = (of_char (Char b0 b1 b2 b3 b4 b5 b6 b7) :: nat)
      in if 65 \<le> n \<and> n \<le> 90 then Char b0 b1 b2 b3 b4 True b6 b7
         else Char b0 b1 b2 b3 b4 b5 b6 b7)"

definition toLowerCase :: "string \<Rightarrow> string" where
  "toLowerCase s = map lower_char s"

subsection \<open>Property access\<close>

text \<open>
  \<^verbatim>\<open>v.k\<close> for a key \<open>k\<close> that no prototype defines (the code reads \<^verbatim>\<open>error\<close>,
  \<^verbatim>\<open>code\<close>, \<^verbatim>\<open>param\<close>, \<^verbatim>\<open>message\<close>, \<^verbatim>\<open>choices\<close>, \<^verbatim>\<open>content\<close>, \<^verbatim>\<open>verdict\<close> and
  \<^verbatim>\<open>reasoning\<close>): a TypeError on \<open>null\<close> and \<open>undefined\<close>, the own property of an
  object, \<open>undefined\<close> on everything else.
\<close>

fun get_prop :: "jsval \<Rightarrow> string \<Rightarrow> thrown + jsval" where
  "get_prop JUndefined k = Inl (TypeError ''Cannot read properties of undefined'')"
| "get_prop JNull k = Inl (TypeError ''Cannot read properties of null'')"
| "get_prop (JObj kvs) k = Inr (case map_of kvs k of None \<Rightarrow> JUndefined | Some v \<Rightarrow> v)"
| "get_prop v k = Inr JUndefined"

text \<open>\<^verbatim>\<open>v?.k\<close>: \<open>undefined\<close> when \<open>v\<close> is \<open>null\<close> or \<open>undefined\<close>, never a TypeError.\<close>

fun opt_prop :: "jsval \<Rightarrow> string \<Rightarrow> jsval" where
  "opt_prop (JObj kvs) k = (case map_of kvs k of None \<Rightarrow> JUndefined | Some v \<Rightarrow> v)"
| "opt_prop v k = JUndefined"

text \<open>
  \<^verbatim>\<open>v[0]\<close>: the first element of an array, the first character of a string, the
  property \<^verbatim>\<open>"0"\<close> of an object, a TypeError on \<open>null\<close> and \<open>undefined\<close>.
\<close>

fun get_index0 :: "jsval \<Rightarrow> thrown + jsval" where
  "get_index0 JUndefined = Inl (TypeError ''Cannot read properties of undefined'')"
| "get_index0 JNull = Inl (TypeError ''Cannot read properties of null'')"
| "get_index0 (JArr xs) = Inr (case xs of [] \<Rightarrow> JUndefined | x # _ \<Rightarrow> x)"
| "get_index0 (JStr s) = Inr (case s of [] \<Rightarrow> JUndefined | c # _ \<Rightarrow> JStr [c])"
| "get_index0 (JObj kvs) = Inr (case map_of kvs ''0'' of None \<Rightarrow> JUndefined | Some v \<Rightarrow> v)"
| "get_index0 v = Inr JUndefined"

text \<open>
  \<^verbatim>\<open>v.includes(t)\<close> for a truthy \<open>v\<close>: substring search on a string, membership on an
  array; any other value has no callable \<^verbatim>\<open>includes\<close>, so the call is a TypeError.
\<close>

fun js_includes :: "jsval \<Rightarrow> string \<Rightarrow> thrown + bool" where
  "js_includes (JStr s) t = Inr (str_includes s t)"
| "js_includes (JArr xs) t = Inr (JStr t \<in> set xs)"
| "js_includes v t = Inl (TypeError ''includes is not a function'')"

subsection \<open>JSON.stringify\<close>

text \<open>A string as a JSON string literal: quoted, with the escapes of \<^verbatim>\<open>JSON.stringify\<close>.\<close>

definition escape_char :: "char \<Rightarrow> string" where
  "escape_char c =
     (if c = CHR 0x22 then [CHR 0x5C, CHR 0x22]
      else if c = CHR 0x5C then [CHR 0x5C, CHR 0x5C]
      else if c = CHR 0x08 then [CHR 0x5C, CHR ''b'']
      else if c = CHR 0x0C then [CHR 0x5C, CHR ''f'']
      else if c = CHR 0x0A then [CHR 0x5C, CHR ''n'']
      else if c = CHR 0x0D then [CHR 0x5C, CHR ''r'']
      else if c = CHR 0x09 then [CHR 0x5C, CHR ''t'']
      else if (of_char c :: nat) < 32
        then [CHR 0x5C, CHR ''u'', CHR ''0'', CHR ''0'',
              ''0123456789abcdef'' ! (of_char c div 16), ''0123456789abcdef'' ! (of_char c mod 16)]
      else [c])"

definition quote_json :: "string \<Rightarrow> string" where
  "quote_json s = [CHR 0x22] @ concat (map escape_char s) @ [CHR 0x22]"

text \<open>
  \<^verbatim>\<open>JSON.stringify(v, null, 2)\<close> at a given indentation. \<open>None\<close> stands for the
  result \<open>undefined\<close> (no text is produced). In an array an \<open>undefined\<close> element is
  written as \<open>null\<close>; in an object a property whose value is \<open>undefined\<close> is left out.
\<close>

fun stringify_at :: "string \<Rightarrow> jsval \<Rightarrow> string option" where
  "stringify_at ind JUndefined = None"
| "stringify_at ind JNull = Some ''null''"
| "stringify_at ind (JBool b) = Some (if b then ''true'' else ''false'')"
| "stringify_at ind (JNum n) = Some (show_int n)"
| "stringify_at ind (JStr s) = Some (quote_json s)"
| "stringify_at ind (JArr xs) =
     (if xs = [] then Some ''[]''
      else Some (''['' @ [CHR 0x0A] @ (ind @ ''  '')
        @ join ('','' @ [CHR 0x0A] @ (ind @ ''  ''))
            (map (\<lambda>x. case stringify_at (ind @ ''  '') x of None \<Rightarrow> ''null'' | Some t \<Rightarrow> t) xs)
        @ [CHR 0x0A] @ ind @ '']''))"
| "stringify_at ind (JObj kvs) =
     (let parts = concat (map (\<lambda>kv. case stringify_at (ind @ ''  '') (snd kv) of
                                  None \<Rightarrow> []
                                | Some t \<Rightarrow> [quote_json (fst kv) @ '': '' @ t]) kvs)
      in if parts = [] then Some ''{}''
         else Some (''{'' @ [CHR 0x0A] @ (ind @ ''  '')
           @ join ('','' @ [CHR 0x0A] @ (ind @ ''  '')) parts
           @ [CHR 0x0A] @ ind @ ''}''))"

definition JSON_stringify :: "jsval \<Rightarrow> string option" where
  "JSON_stringify v = stringify_at [] v"

text \<open>\<^verbatim>\<open>`${x}`\<close> for the result of \<^verbatim>\<open>JSON.stringify\<close>.\<close>

definition interpolate :: "string option \<Rightarrow> string" where
  "interpolate r = (case r of None \<Rightarrow> ''undefined'' | Some t \<Rightarrow> t)"

section \<open>Prompt Builder (openAI.ts, buildTypeSpecificPrompt)\<close>

text \<open>The lines of a template literal, joined by line feeds.\<close>

definition lines_text :: "string list \<Rightarrow> string" where
  "lines_text ls = join [CHR 0x0A] ls"

text \<open>
  The instruction that closes the three typed templates, and the one that closes the
  default template.
\<close>

definition respond_line :: string where
  \<open>respond_line =
     ''- Respond with JSON: {"verdict": "pass" | "fail" | "inconclusive", "reasoning": "your explanation"}''\<close>

definition respond_line_default :: string where
  \<open>respond_line_default =
     ''Evaluate this answer and respond with JSON in this exact format: {"verdict": "pass" | "fail" | "inconclusive", "reasoning": "your explanation here"}''\<close>

text \<open>
  \<open>questionType\<close> is the column \<^verbatim>\<open>question_type\<close> as the database returns it: a
  string or \<open>null\<close> (\<open>None\<close>). The \<^verbatim>\<open>switch\<close> has one case for each of the three
  known types and a \<^verbatim>\<open>default\<close> for everything else.
\<close>

definition buildTypeSpecificPrompt :: "string option \<Rightarrow> string \<Rightarrow> jsval \<Rightarrow> string" where
  \<open>buildTypeSpecificPrompt questionType questionText answerJson =
     (let answerStr = interpolate (JSON_stringify answerJson) in
      if questionType = Some ''multiple_choice'' then
        lines_text [
          ''Question Type: Multiple Choice'',
          ''Question: '' @ questionText,
          [],
          ''Answer JSON:'',
          answerStr,
          [],
          ''Evaluation Instructions:'',
          ''- This is a standard multiple-choice question with a definitive ground truth.'',
          ''- Extract the user's choice from the 'choice', 'label', or 'choices' field in the answer JSON.'',
          ''- If 'choices' is an array, use the array values as the selected options.'',
          ''- If 'choices' is a single value, treat it as the selected choice.'',
          ''- Check if the choice(s) match the correct answer (ground truth).'',
          ''- If the choice is incorrect, issue an immediate FAIL.'',
          ''- If the choice is correct, issue a PASS.'',
          respond_line]
      else if questionType = Some ''single_choice_with_reasoning'' then
        lines_text [
          ''Question Type: Single Choice with Reasoning'',
          ''Question: '' @ questionText,
          [],
          ''Answer JSON:'',
          answerStr,
          [],
          ''Evaluation Instructions:'',
          ''- This question type expects a fixed choice (like "yes/no") plus a text explanation.'',
          ''- Extract both the 'choice' (or 'label') AND 'reasoning' fields from the answer JSON.'',
          ''- The choice must be correct AND the reasoning must support it.'',
          ''- Look for contradictions: If the choice is correct but reasoning says "I don't know" or contradicts the choice, issue INCONCLUSIVE (human was guessing).'',
          ''- If choice is wrong, issue FAIL.'',
          ''- If choice is correct AND reasoning supports it, issue PASS.'',
          respond_line]
      else if questionType = Some ''free_form'' then
        lines_text [
          ''Question Type: Free-Form (Open-Ended)'',
          ''Question: '' @ questionText,
          [],
          ''Answer JSON:'',
          answerStr,
          [],
          ''Evaluation Instructions:'',
          ''- Extract the text content from 'text' or 'content' field in the answer JSON.'',
          ''- This is a subjective evaluation with no exact string match.'',
          ''- Evaluate the quality, tone, and accuracy of the text.'',
          ''- Use the system prompt (rubric) to determine if the human followed instructions.'',
          ''- Act like a teacher: assess whether the answer demonstrates understanding.'',
          respond_line]
      else
        lines_text [
          ''Question: '' @ questionText,
          [],
          ''Answer JSON:'',
          answerStr,
          [],
          respond_line_default])\<close>

section \<open>The database and the model provider\<close>

text \<open>
  The rows of the tables of \<^verbatim>\<open>schema.sql\<close> that the function reads and writes, with
  the columns it uses. Identifiers are uuids, carried as strings. The identifier of an
  evaluation row is generated by the database and only ever compared, so it is a number
  here, and a new row gets one that no row has.
\<close>

record submission_row =
  sub_id :: string
  sub_workspace_id :: string

record question_row =
  q_id :: string
  q_question_text :: string
  q_question_type :: "string option"
  q_submission_id :: string

record answer_row =
  ans_question_id :: string
  ans_answer_json :: jsval

record judge_row =
  j_id :: string
  j_user_id :: string
  j_name :: string
  j_system_prompt :: string
  j_model :: string

record evaluation_row =
  ev_id :: nat
  ev_submission_id :: string
  ev_question_id :: string
  ev_judge_id :: string
  ev_verdict :: string
  ev_reasoning :: jsval

text \<open>The interfaces of \<^verbatim>\<open>types.ts\<close>.\<close>

record Assignment =
  judge_id :: string
  question_id :: string

record JudgeData =
  jd_id :: string
  jd_name :: string
  jd_system_prompt :: string
  jd_model :: string

record QuestionData =
  qd_id :: string
  qd_question_text :: string
  qd_question_type :: "string option"
  qd_answer_json :: jsval
  qd_submission_id :: string

record EvaluationResult =
  questionId :: string
  judgeId :: string
  verdict :: string
  success :: bool
  error :: "string option"

record OpenAIResponse =
  or_verdict :: string
  or_reasoning :: jsval

text \<open>
  A request to the chat-completions endpoint: the fields of the JSON body that vary,
  the bearer token, and whether \<^verbatim>\<open>temperature: 0\<close> is part of the body.
\<close>

record chat_request =
  rq_apiKey :: string
  rq_model :: string
  rq_system :: string
  rq_user :: string
  rq_temperature :: bool

record http_reply =
  status :: nat
  body :: string

datatype fetch_outcome = Responded http_reply | Rejected thrown

text \<open>
  Everything outside the function: the tables, the provider and the failures of the
  database.
  \<^item> \<open>provider\<close> answers a request given all requests sent so far (the last one is
    the request being answered); \<open>sent\<close> is the log of requests.
  \<^item> \<open>db_faults\<close> scripts the database calls to come: the next call takes the head,
    \<open>Some e\<close> makes it report the error \<open>e\<close> and leave the tables as they are, \<open>None\<close>
    (and an exhausted script) lets it go through.
\<close>

record world =
  submissions :: "submission_row list"
  questions :: "question_row list"
  answers :: "answer_row list"
  judge_assignments :: "Assignment list"
  judges :: "judge_row list"
  evaluations :: "evaluation_row list"
  db_faults :: "thrown option list"
  provider :: "chat_request list \<Rightarrow> fetch_outcome"
  sent :: "chat_request list"

definition db_request :: "world \<Rightarrow> thrown option \<times> world" where
  "db_request w = (case db_faults w of [] \<Rightarrow> (None, w) | f # fs \<Rightarrow> (f, w\<lparr>db_faults := fs\<rparr>))"

section \<open>Database operations (database.ts)\<close>

definition getSubmissionsForWorkspace :: "string \<Rightarrow> world \<Rightarrow> (thrown + string list) \<times> world" where
  "getSubmissionsForWorkspace workspaceId w =
     (case db_request w of
        (Some e, w') \<Rightarrow> (Inl e, w')
      | (None, w') \<Rightarrow>
          (let data = filter (\<lambda>s. sub_workspace_id s = workspaceId) (submissions w') in
           if data = [] then (Inl (new_Error ''No submissions found in workspace''), w')
           else (Inr (map sub_id data), w')))"

definition getQuestionsForSubmissions :: "string list \<Rightarrow> world \<Rightarrow> (thrown + QuestionData list) \<times> world" where
  "getQuestionsForSubmissions submissionIds w =
     (case db_request w of
        (Some e, w') \<Rightarrow> (Inl e, w')
      | (None, w') \<Rightarrow>
          (let data = filter (\<lambda>q. q_submission_id q \<in> set submissionIds) (questions w') in
           if data = [] then (Inl (new_Error ''No questions found''), w')
           else (Inr (map (\<lambda>q. \<lparr>qd_id = q_id q,
                                 qd_question_text = q_question_text q,
                                 qd_question_type = q_question_type q,
                                 qd_answer_json = JNull,
                                 qd_submission_id = q_submission_id q\<rparr>) data), w')))"

text \<open>
  The answers come back as a \<^verbatim>\<open>Map\<close> from question id to payload, filled row by row
  (a later row for the same key replaces an earlier one).
\<close>

definition getAnswersForQuestions :: "string list \<Rightarrow> world \<Rightarrow> (thrown + (string \<rightharpoonup> jsval)) \<times> world" where
  "getAnswersForQuestions questionIds w =
     (case db_request w of
        (Some e, w') \<Rightarrow> (Inl e, w')
      | (None, w') \<Rightarrow>
          (let data = filter (\<lambda>a. ans_question_id a \<in> set questionIds) (answers w') in
           (Inr (fold (\<lambda>a m. m(ans_question_id a \<mapsto> ans_answer_json a)) data Map.empty), w')))"

definition getJudgeAssignments :: "string list \<Rightarrow> world \<Rightarrow> (thrown + Assignment list) \<times> world" where
  "getJudgeAssignments questionIds w =
     (if questionIds = [] then (Inr [], w)
      else case db_request w of
        (Some e, w') \<Rightarrow> (Inl e, w')
      | (None, w') \<Rightarrow>
          (let data = filter (\<lambda>a. question_id a \<in> set questionIds) (judge_assignments w') in
           if data = [] then (Inl (new_Error ''No judge assignments found''), w')
           else (Inr data, w')))"

definition getJudgesForUser :: "string list \<Rightarrow> string \<Rightarrow> world \<Rightarrow> (thrown + JudgeData list) \<times> world" where
  "getJudgesForUser judgeIds userId w =
     (if judgeIds = [] then (Inr [], w)
      else case db_request w of
        (Some e, w') \<Rightarrow> (Inl e, w')
      | (None, w') \<Rightarrow>
          (let data = filter (\<lambda>j. j_id j \<in> set judgeIds \<and> j_user_id j = userId) (judges w') in
           if data = [] then (Inl (new_Error ''No judges found''), w')
           else (Inr (map (\<lambda>j. \<lparr>jd_id = j_id j, jd_name = j_name j,
                                 jd_system_prompt = j_system_prompt j, jd_model = j_model j\<rparr>) data), w')))"

text \<open>The key \<^verbatim>\<open>`${question_id}:${judge_id}`\<close> of a pair.\<close>

definition pairKey :: "string \<Rightarrow> string \<Rightarrow> string" where
  "pairKey q j = q @ '':'' @ j"

definition deleteOldEvaluations :: "string list \<Rightarrow> Assignment list \<Rightarrow> world \<Rightarrow> (thrown + unit) \<times> world" where
  "deleteOldEvaluations questionIds currentAssignments w =
     (if questionIds = [] then (Inr (), w)
      else
        let validPairs = set (map (\<lambda>a. pairKey (question_id a) (judge_id a)) currentAssignments) in
        case db_request w of
          (Some fetchError, w1) \<Rightarrow> (Inl fetchError, w1)
        | (None, w1) \<Rightarrow>
            (let existingEvaluations = filter (\<lambda>e. ev_question_id e \<in> set questionIds) (evaluations w1) in
             if existingEvaluations = [] then (Inr (), w1)
             else
               let evaluationsToDelete =
                     filter (\<lambda>e. pairKey (ev_question_id e) (ev_judge_id e) \<notin> validPairs) existingEvaluations in
               if evaluationsToDelete = [] then (Inr (), w1)
               else
                 let idsToDelete = map ev_id evaluationsToDelete in
                 case db_request w1 of
                   (Some deleteError, w2) \<Rightarrow> (Inl deleteError, w2)
                 | (None, w2) \<Rightarrow>
                     (Inr (), w2\<lparr>evaluations := filter (\<lambda>e. ev_id e \<notin> set idsToDelete) (evaluations w2)\<rparr>)))"

text \<open>
  The upsert on the conflict target \<^verbatim>\<open>question_id,judge_id\<close>: the row of the pair is
  overwritten where it exists (it keeps its id), a new row is inserted otherwise.
\<close>

definition fresh_id :: "evaluation_row list \<Rightarrow> nat" where
  "fresh_id evs = Suc (fold max (map ev_id evs) 0)"

definition upsert_evaluation ::
  "string \<Rightarrow> string \<Rightarrow> string \<Rightarrow> string \<Rightarrow> jsval \<Rightarrow> evaluation_row list \<Rightarrow> evaluation_row list" where
  "upsert_evaluation submissionId qid jid v r evs =
     (if list_ex (\<lambda>e. ev_question_id e = qid \<and> ev_judge_id e = jid) evs
      then map (\<lambda>e. if ev_question_id e = qid \<and> ev_judge_id e = jid
                     then e\<lparr>ev_submission_id := submissionId, ev_verdict := v, ev_reasoning := r\<rparr>
                     else e) evs
      else evs @ [\<lparr>ev_id = fresh_id evs, ev_submission_id = submissionId, ev_question_id = qid,
                   ev_judge_id = jid, ev_verdict = v, ev_reasoning = r\<rparr>])"

definition saveEvaluation ::
  "string \<Rightarrow> string \<Rightarrow> string \<Rightarrow> string \<Rightarrow> jsval \<Rightarrow> world \<Rightarrow> (thrown + unit) \<times> world" where
  "saveEvaluation submissionId qid jid v r w =
     (case db_request w of
        (Some e, w') \<Rightarrow> (Inl e, w')
      | (None, w') \<Rightarrow>
          (Inr (), w'\<lparr>evaluations := upsert_evaluation submissionId qid jid v r (evaluations w')\<rparr>))"

section \<open>Model Caller and Response Validator (openAI.ts, callOpenAI)\<close>

text \<open>
  \<^verbatim>\<open>JSON.parse\<close> is a parameter of the model: \<open>JSON_parse s\<close> is \<open>Some v\<close> when the
  text \<open>s\<close> is valid JSON denoting \<open>v\<close>, and \<open>None\<close> when \<^verbatim>\<open>JSON.parse(s)\<close> throws a
  SyntaxError. Every theorem below holds for every such function.
\<close>

type_synonym json_parser = "string \<Rightarrow> jsval option"

definition modelsWithoutTemperature :: "string list" where
  "modelsWithoutTemperature = [''gpt-5-mini'', ''gpt-5.1-mini'', ''gpt-5 mini'', ''gpt-5.1 mini'']"

definition supportsTemperature :: "string \<Rightarrow> bool" where
  "supportsTemperature model =
     (\<not> list_ex (\<lambda>m. str_includes (toLowerCase model) (toLowerCase m)) modelsWithoutTemperature)"

text \<open>
  \<^verbatim>\<open>makeRequest\<close>: one POST to the provider. The AbortController's timeout shows as a
  rejection of \<^verbatim>\<open>fetch\<close> with an error named AbortError, which is rethrown with a
  message naming the model; any other rejection is rethrown as it is.
\<close>

definition makeRequest ::
  "string \<Rightarrow> string \<Rightarrow> string \<Rightarrow> string \<Rightarrow> bool \<Rightarrow> world \<Rightarrow> (thrown + http_reply) \<times> world" where
  "makeRequest apiKey model systemPrompt userPrompt includeTemperature w =
     (let rq = \<lparr>rq_apiKey = apiKey, rq_model = model, rq_system = systemPrompt,
                rq_user = userPrompt, rq_temperature = includeTemperature\<rparr>;
          w' = w\<lparr>sent := sent w @ [rq]\<rparr>
      in case provider w (sent w') of
           Responded response \<Rightarrow> (Inr response, w')
         | Rejected (JsError n m) \<Rightarrow>
             (if n = ''AbortError''
              then (Inl (new_Error (''OpenAI API request timeout for model '' @ model
                      @ ''. The request took longer than 2 minutes.'')), w')
              else (Inl (JsError n m), w'))
         | Rejected (JsThrown v) \<Rightarrow> (Inl (JsThrown v), w'))"

text \<open>\<^verbatim>\<open>response.ok\<close>\<close>

definition ok :: "http_reply \<Rightarrow> bool" where
  "ok response = (200 \<le> status response \<and> status response \<le> 299)"

text \<open>
  The condition of lines 188 to 193 on the parsed error body. Reading \<^verbatim>\<open>.error\<close> of
  \<open>null\<close> and calling \<^verbatim>\<open>.includes\<close> on a message that is neither a string nor an array
  throw a TypeError.
\<close>

definition temperature_condition :: "jsval \<Rightarrow> thrown + bool" where
  "temperature_condition errorData =
     (case get_prop errorData ''error'' of
        Inl e \<Rightarrow> Inl e
      | Inr err \<Rightarrow>
          if opt_prop err ''code'' = JStr ''unsupported_value''
             \<and> opt_prop err ''param'' = JStr ''temperature'' then Inr True
          else if \<not> truthy (opt_prop err ''message'') then Inr False
          else (case js_includes (opt_prop err ''message'') ''temperature'' of
                  Inl e \<Rightarrow> Inl e
                | Inr False \<Rightarrow> Inr False
                | Inr True \<Rightarrow> js_includes (opt_prop err ''message'') ''does not support''))"

text \<open>
  \<^verbatim>\<open>shouldRetry\<close> after lines 183 to 201: the condition on the parsed body, or, when
  parsing or the condition throws, the search in the raw text.
\<close>

definition shouldRetry :: "json_parser \<Rightarrow> string \<Rightarrow> bool" where
  "shouldRetry JSON_parse errorText =
     (case JSON_parse errorText of
        None \<Rightarrow> str_includes errorText ''temperature'' \<and> str_includes errorText ''does not support''
      | Some errorData \<Rightarrow>
          (case temperature_condition errorData of
             Inr b \<Rightarrow> b
           | Inl e \<Rightarrow> str_includes errorText ''temperature''
                      \<and> str_includes errorText ''does not support''))"

text \<open>What lines 209 to 212 throw when the first response is not retried.\<close>

definition first_failure :: "json_parser \<Rightarrow> http_reply \<Rightarrow> thrown" where
  "first_failure JSON_parse response =
     (let errorText = body response in
      if str_includes errorText ''{'' then
        (case JSON_parse errorText of
           None \<Rightarrow> SyntaxError ''Unexpected token in JSON''
         | Some errorData \<Rightarrow>
             (case get_prop errorData ''error'' of
                Inl e \<Rightarrow> e
              | Inr err \<Rightarrow>
                  (let errorMessage = (if truthy (opt_prop err ''message'')
                                       then opt_prop err ''message'' else JStr errorText)
                   in new_Error (''OpenAI API error: '' @ show_nat (status response) @ '' ''
                                 @ js_to_string errorMessage))))
      else new_Error (''OpenAI API error: '' @ show_nat (status response) @ '' '' @ errorText))"

text \<open>The message of lines 217 to 231, for a response that is still not ok.\<close>

definition model_unavailable :: "string \<Rightarrow> string" where
  \<open>model_unavailable model = ''Model "'' @ model
     @ ''" is not available. Please update your judge to use a different model (e.g., gpt-3.5-turbo).''\<close>

definition final_failure_message :: "json_parser \<Rightarrow> string \<Rightarrow> http_reply \<Rightarrow> string" where
  "final_failure_message JSON_parse model response =
     (let errorText = body response;
          caught = ''OpenAI API error: '' @ show_nat (status response) @ '' '' @ errorText
      in case JSON_parse errorText of
           None \<Rightarrow> caught
         | Some errorData \<Rightarrow>
             (case get_prop errorData ''error'' of
                Inl e \<Rightarrow> caught
              | Inr err \<Rightarrow>
                  if \<not> truthy (opt_prop err ''message'')
                  then ''OpenAI API error: '' @ show_nat (status response)
                  else if opt_prop err ''code'' = JStr ''model_not_found'' then model_unavailable model
                  else (case js_includes (opt_prop err ''message'') ''does not exist'' of
                          Inl e \<Rightarrow> caught
                        | Inr True \<Rightarrow> model_unavailable model
                        | Inr False \<Rightarrow> ''OpenAI API error: '' @ js_to_string (opt_prop err ''message''))))"

text \<open>\<^verbatim>\<open>data.choices[0]?.message?.content\<close> of the decoded body (lines 236 and 237).\<close>

definition response_content :: "json_parser \<Rightarrow> http_reply \<Rightarrow> thrown + jsval" where
  "response_content JSON_parse response =
     (case JSON_parse (body response) of
        None \<Rightarrow> Inl (SyntaxError ''Unexpected token in JSON'')
      | Some data \<Rightarrow>
          (case get_prop data ''choices'' of
             Inl e \<Rightarrow> Inl e
           | Inr choices \<Rightarrow>
               (case get_index0 choices of
                  Inl e \<Rightarrow> Inl e
                | Inr choice \<Rightarrow> Inr (opt_prop (opt_prop choice ''message'') ''content''))))"

text \<open>\<^verbatim>\<open>validateVerdict\<close>\<close>

fun validateVerdict :: "jsval \<Rightarrow> string" where
  "validateVerdict (JStr s) =
     (if s \<in> set [''pass'', ''fail'', ''inconclusive''] then s else ''inconclusive'')"
| "validateVerdict v = ''inconclusive''"

text \<open>
  The Response Validator, lines 243 to 258: the \<^verbatim>\<open>try\<close> block parses the content and
  reads the two fields; its \<^verbatim>\<open>catch\<close> takes over when anything in the block throws.
\<close>

definition parse_failure :: OpenAIResponse where
  "parse_failure = \<lparr>or_verdict = ''inconclusive'',
                    or_reasoning = JStr ''Failed to parse LLM response as JSON''\<rparr>"

definition validate_content :: "json_parser \<Rightarrow> jsval \<Rightarrow> OpenAIResponse" where
  "validate_content JSON_parse content =
     (case JSON_parse (js_to_string content) of
        None \<Rightarrow> parse_failure
      | Some parsed \<Rightarrow>
          (case get_prop parsed ''verdict'' of
             Inl e \<Rightarrow> parse_failure
           | Inr v \<Rightarrow>
               (case get_prop parsed ''reasoning'' of
                  Inl e \<Rightarrow> parse_failure
                | Inr r \<Rightarrow> \<lparr>or_verdict = validateVerdict v,
                            or_reasoning = (if truthy r then r else JStr [])\<rparr>)))"

text \<open>Lines 216 to 260: what \<^verbatim>\<open>callOpenAI\<close> makes of the response it ends up with.\<close>

definition conclude :: "json_parser \<Rightarrow> string \<Rightarrow> http_reply \<Rightarrow> thrown + OpenAIResponse" where
  "conclude JSON_parse model response =
     (if \<not> ok response then Inl (new_Error (final_failure_message JSON_parse model response))
      else case response_content JSON_parse response of
             Inl e \<Rightarrow> Inl e
           | Inr content \<Rightarrow>
               if \<not> truthy content then Inl (new_Error ''No content in OpenAI response'')
               else Inr (validate_content JSON_parse content))"

definition callOpenAI ::
  "json_parser \<Rightarrow> string \<Rightarrow> string \<Rightarrow> string \<Rightarrow> string option \<Rightarrow> jsval \<Rightarrow> string \<Rightarrow> world
     \<Rightarrow> (thrown + OpenAIResponse) \<times> world" where
  "callOpenAI JSON_parse apiKey systemPrompt questionText questionType answerJson model w =
     (let userPrompt = buildTypeSpecificPrompt questionType questionText answerJson in
      case makeRequest apiKey model systemPrompt userPrompt (supportsTemperature model) w of
        (Inl e, w1) \<Rightarrow> (Inl e, w1)
      | (Inr response, w1) \<Rightarrow>
          if \<not> ok response then
            if shouldRetry JSON_parse (body response) then
              (case makeRequest apiKey model systemPrompt userPrompt False w1 of
                 (Inl e, w2) \<Rightarrow> (Inl e, w2)
               | (Inr response2, w2) \<Rightarrow> (conclude JSON_parse model response2, w2))
            else (Inl (first_failure JSON_parse response), w1)
          else (conclude JSON_parse model response, w1))"

section \<open>Evaluation Orchestrator (evaluate.ts)\<close>

definition evaluateAssignment ::
  "json_parser \<Rightarrow> Assignment \<Rightarrow> JudgeData \<Rightarrow> QuestionData \<Rightarrow> string \<Rightarrow> world
     \<Rightarrow> (thrown + EvaluationResult) \<times> world" where
  "evaluateAssignment JSON_parse assignment judge question openaiApiKey w =
     (let attempt =
        (case callOpenAI JSON_parse openaiApiKey (jd_system_prompt judge) (qd_question_text question)
                (qd_question_type question) (qd_answer_json question) (jd_model judge) w of
           (Inl e, w1) \<Rightarrow> (Inl e, w1)
         | (Inr result, w1) \<Rightarrow>
             (case saveEvaluation (qd_submission_id question) (question_id assignment)
                     (judge_id assignment) (or_verdict result)
                     (if truthy (or_reasoning result) then or_reasoning result else JNull) w1 of
                (Inl e, w2) \<Rightarrow> (Inl e, w2)
              | (Inr u, w2) \<Rightarrow>
                  (Inr \<lparr>questionId = question_id assignment, judgeId = judge_id assignment,
                        verdict = or_verdict result, success = True, error = None\<rparr>, w2)))
      in case attempt of
           (Inr r, w') \<Rightarrow> (Inr r, w')
         | (Inl err, w') \<Rightarrow>
             (let saved = saveEvaluation (qd_submission_id question) (question_id assignment)
                            (judge_id assignment) ''inconclusive''
                            (JStr (''Error: '' @ message_or_unknown err)) w'
              in (Inr \<lparr>questionId = question_id assignment, judgeId = judge_id assignment,
                       verdict = ''inconclusive'', success = False,
                       error = Some (message_or_unknown err)\<rparr>, snd saved)))"

section \<open>Batch Runner (index.ts)\<close>

record summary =
  sm_success :: bool
  processed :: nat
  passed :: nat
  failed :: nat
  inconclusive :: nat
  results :: "EvaluationResult list"

text \<open>
  The responses of the endpoint: the answer to a CORS preflight, the JSON body of
  \<^verbatim>\<open>successResponse\<close> (status 200), and the message and status of \<^verbatim>\<open>errorResponse\<close>.
\<close>

datatype http_response = Preflight | Success summary | Failure string nat

definition successResponse :: "EvaluationResult list \<Rightarrow> http_response" where
  "successResponse rs =
     Success \<lparr>sm_success = True,
              processed = length rs,
              passed = length (filter (\<lambda>r. verdict r = ''pass'') rs),
              failed = length (filter (\<lambda>r. verdict r = ''fail'') rs),
              inconclusive = length (filter (\<lambda>r. verdict r = ''inconclusive'') rs),
              results = rs\<rparr>"

definition errorResponse :: "string \<Rightarrow> nat \<Rightarrow> http_response" where
  "errorResponse message st = Failure message st"

text \<open>
  The request: its method and what \<^verbatim>\<open>await req.json()\<close> gives (the decoded body, or
  the exception it throws).
\<close>

record http_request =
  req_method :: string
  req_json :: "thrown + jsval"

text \<open>\<^verbatim>\<open>error instanceof Error && error.message.includes(t)\<close>\<close>

fun is_error_including :: "thrown \<Rightarrow> string \<Rightarrow> bool" where
  "is_error_including (JsError n m) t = str_includes m t"
| "is_error_including (JsThrown v) t = False"

text \<open>\<^verbatim>\<open>[...new Set(xs)]\<close>: the distinct elements, in the order of their first occurrence.\<close>

definition unique_in_order :: "'a list \<Rightarrow> 'a list" where
  "unique_in_order xs = rev (remdups (rev xs))"

text \<open>
  Step 8, the loop over the assignments. An assignment whose judge or question is not
  in the lookup maps is skipped.
\<close>

fun process_assignments ::
  "json_parser \<Rightarrow> string \<Rightarrow> (string \<rightharpoonup> JudgeData) \<Rightarrow> (string \<rightharpoonup> QuestionData) \<Rightarrow> Assignment list
     \<Rightarrow> EvaluationResult list \<Rightarrow> world \<Rightarrow> (thrown + EvaluationResult list) \<times> world" where
  "process_assignments JSON_parse apiKey judgeMap questionMap [] rs w = (Inr rs, w)"
| "process_assignments JSON_parse apiKey judgeMap questionMap (a # as) rs w =
     (case judgeMap (judge_id a) of
        None \<Rightarrow> process_assignments JSON_parse apiKey judgeMap questionMap as rs w
      | Some judge \<Rightarrow>
          (case questionMap (question_id a) of
             None \<Rightarrow> process_assignments JSON_parse apiKey judgeMap questionMap as rs w
           | Some question \<Rightarrow>
               (case evaluateAssignment JSON_parse a judge question apiKey w of
                  (Inl e, w') \<Rightarrow> (Inl e, w')
                | (Inr r, w') \<Rightarrow>
                    process_assignments JSON_parse apiKey judgeMap questionMap as (rs @ [r]) w')))"

text \<open>Steps 6 to 9: reconciliation, the lookup maps, the loop and the summary.\<close>

definition answer_of :: "(string \<rightharpoonup> jsval) \<Rightarrow> string \<Rightarrow> jsval" where
  "answer_of answerMap k = (case answerMap k of None \<Rightarrow> JUndefined | Some a \<Rightarrow> a)"

definition evaluate_all ::
  "json_parser \<Rightarrow> string \<Rightarrow> QuestionData list \<Rightarrow> (string \<rightharpoonup> jsval) \<Rightarrow> Assignment list
     \<Rightarrow> JudgeData list \<Rightarrow> world \<Rightarrow> (thrown + http_response) \<times> world" where
  "evaluate_all JSON_parse apiKey qs answerMap assignments js w =
     (case deleteOldEvaluations (map qd_id qs) assignments w of
        (Inl e, w1) \<Rightarrow> (Inl e, w1)
      | (Inr u, w1) \<Rightarrow>
          (let judgeMap = fold (\<lambda>j m. m(jd_id j \<mapsto> j)) js Map.empty;
               questionMap = fold (\<lambda>q m. m(qd_id q \<mapsto> q\<lparr>qd_answer_json := answer_of answerMap (qd_id q)\<rparr>))
                               qs Map.empty
           in case process_assignments JSON_parse apiKey judgeMap questionMap assignments [] w1 of
                (Inl e, w2) \<Rightarrow> (Inl e, w2)
              | (Inr rs, w2) \<Rightarrow> (Inr (successResponse rs), w2)))"

text \<open>Steps 4 and 5: the assignments and the judges, with the two early returns.\<close>

definition resolve_and_evaluate ::
  "json_parser \<Rightarrow> string \<Rightarrow> string \<Rightarrow> QuestionData list \<Rightarrow> (string \<rightharpoonup> jsval) \<Rightarrow> world
     \<Rightarrow> (thrown + http_response) \<times> world" where
  "resolve_and_evaluate JSON_parse apiKey userId qs answerMap w =
     (case getJudgeAssignments (map qd_id qs) w of
        (Inl e, w1) \<Rightarrow>
          if is_error_including e ''No judge assignments found''
          then (Inr (successResponse []), w1) else (Inl e, w1)
      | (Inr assignments, w1) \<Rightarrow>
          (case getJudgesForUser (unique_in_order (map judge_id assignments)) userId w1 of
             (Inl e, w2) \<Rightarrow>
               if is_error_including e ''No judges found''
               then (Inr (successResponse []), w2) else (Inl e, w2)
           | (Inr js, w2) \<Rightarrow> evaluate_all JSON_parse apiKey qs answerMap assignments js w2))"

text \<open>Steps 1 to 3: submissions, questions and answers.\<close>

definition run_batch ::
  "json_parser \<Rightarrow> string \<Rightarrow> string \<Rightarrow> string \<Rightarrow> world \<Rightarrow> (thrown + http_response) \<times> world" where
  "run_batch JSON_parse apiKey workspaceId userId w =
     (case getSubmissionsForWorkspace workspaceId w of
        (Inl e, w1) \<Rightarrow> (Inl e, w1)
      | (Inr submissionIds, w1) \<Rightarrow>
          (case getQuestionsForSubmissions submissionIds w1 of
             (Inl e, w2) \<Rightarrow> (Inl e, w2)
           | (Inr qs, w2) \<Rightarrow>
               (case getAnswersForQuestions (map qd_id qs) w2 of
                  (Inl e, w3) \<Rightarrow> (Inl e, w3)
                | (Inr answerMap, w3) \<Rightarrow>
                    resolve_and_evaluate JSON_parse apiKey userId qs answerMap w3)))"

text \<open>
  The body of the outer \<^verbatim>\<open>try\<close>: the check of the API key (the environment variable
  \<^verbatim>\<open>OPENAI_SECRET_KEY\<close>, \<open>None\<close> when unset), the two request fields, then the run.
  The fields reach the queries as text.
\<close>

definition serve_try ::
  "json_parser \<Rightarrow> string option \<Rightarrow> http_request \<Rightarrow> world \<Rightarrow> (thrown + http_response) \<times> world" where
  "serve_try JSON_parse OPENAI_SECRET_KEY req w =
     (case OPENAI_SECRET_KEY of
        None \<Rightarrow> (Inl (new_Error ''OPENAI_SECRET_KEY not configured in environment variables''), w)
      | Some apiKey \<Rightarrow>
          if apiKey = [] then
            (Inl (new_Error ''OPENAI_SECRET_KEY not configured in environment variables''), w)
          else
            (case req_json req of
               Inl e \<Rightarrow> (Inl e, w)
             | Inr payload \<Rightarrow>
                 (case get_prop payload ''workspaceId'' of
                    Inl e \<Rightarrow> (Inl e, w)
                  | Inr workspaceId \<Rightarrow>
                      (case get_prop payload ''userId'' of
                         Inl e \<Rightarrow> (Inl e, w)
                       | Inr userId \<Rightarrow>
                           if \<not> truthy workspaceId
                           then (Inr (errorResponse ''Missing workspaceId or userId'' 400), w)
                           else if \<not> truthy userId
                           then (Inr (errorResponse ''Missing workspaceId or userId'' 400), w)
                           else run_batch JSON_parse apiKey (js_to_string workspaceId)
                                  (js_to_string userId) w))))"

definition serve ::
  "json_parser \<Rightarrow> string option \<Rightarrow> http_request \<Rightarrow> world \<Rightarrow> http_response \<times> world" where
  "serve JSON_parse OPENAI_SECRET_KEY req w =
     (if req_method req = ''OPTIONS'' then (Preflight, w)
      else case serve_try JSON_parse OPENAI_SECRET_KEY req w of
             (Inr response, w') \<Rightarrow> (response, w')
           | (Inl err, w') \<Rightarrow> (errorResponse (message_or_unknown err) 500, w'))"

section \<open>Constants used in the statements\<close>

text \<open>
  The part that the closing instruction of every template shares: a JSON object with a
  \<^verbatim>\<open>verdict\<close> field offering the three literals, and a \<^verbatim>\<open>reasoning\<close> field.
\<close>

definition verdict_format :: string where
  \<open>verdict_format = ''{"verdict": "pass" | "fail" | "inconclusive", "reasoning": "your explanation''\<close>

text \<open>The request that \<^verbatim>\<open>callOpenAI\<close> sends, with or without the temperature field.\<close>

definition chat_request_for ::
  "string \<Rightarrow> string \<Rightarrow> string \<Rightarrow> string option \<Rightarrow> string \<Rightarrow> jsval \<Rightarrow> bool \<Rightarrow> chat_request" where
  "chat_request_for apiKey model systemPrompt questionType questionText answerJson temperature =
     \<lparr>rq_apiKey = apiKey, rq_model = model, rq_system = systemPrompt,
      rq_user = buildTypeSpecificPrompt questionType questionText answerJson,
      rq_temperature = temperature\<rparr>"

text \<open>
  The responses that are retried, in the words of the specification and completed with
  the cases it leaves out. A text mentions the rejection when it contains both
  \<^verbatim>\<open>temperature\<close> and \<^verbatim>\<open>does not support\<close>. The body of a non-success response is a
  temperature rejection when
  \<^item> it is valid JSON whose \<^verbatim>\<open>error\<close> has the code \<^verbatim>\<open>unsupported_value\<close> and the param
    \<^verbatim>\<open>temperature\<close>, or whose \<^verbatim>\<open>error.message\<close> is a string that mentions the rejection
    (or an array that has the two strings as elements);
  \<^item> or it is not valid JSON, or denotes \<open>null\<close>, or has a truthy \<^verbatim>\<open>error.message\<close> that is
    neither a string nor an array, and the raw text of the body mentions the rejection.
\<close>

definition mentions_rejection :: "string \<Rightarrow> bool" where
  "mentions_rejection s = (sublist ''temperature'' s \<and> sublist ''does not support'' s)"

definition temperature_rejection :: "json_parser \<Rightarrow> string \<Rightarrow> bool" where
  "temperature_rejection JSON_parse text =
     (case JSON_parse text of
        None \<Rightarrow> mentions_rejection text
      | Some errorData \<Rightarrow>
          if errorData = JNull \<or> errorData = JUndefined then mentions_rejection text
          else if opt_prop (opt_prop errorData ''error'') ''code'' = JStr ''unsupported_value''
                  \<and> opt_prop (opt_prop errorData ''error'') ''param'' = JStr ''temperature''
          then True
          else (case opt_prop (opt_prop errorData ''error'') ''message'' of
                  JStr m \<Rightarrow> mentions_rejection m
                | JArr xs \<Rightarrow> JStr ''temperature'' \<in> set xs \<and> JStr ''does not support'' \<in> set xs
                | other \<Rightarrow> truthy other \<and> mentions_rejection text))"

text \<open>
  What a workspace holds, as the Batch Runner resolves it: the ids of its submissions,
  the ids of their questions, the assignments of those questions, and the assigned
  judges that a user owns.
\<close>

definition workspace_submissions :: "world \<Rightarrow> string \<Rightarrow> string list" where
  "workspace_submissions w workspaceId =
     map sub_id (filter (\<lambda>s. sub_workspace_id s = workspaceId) (submissions w))"

definition workspace_questions :: "world \<Rightarrow> string \<Rightarrow> string list" where
  "workspace_questions w workspaceId =
     map q_id (filter (\<lambda>q. q_submission_id q \<in> set (workspace_submissions w workspaceId))
                 (questions w))"

definition workspace_assignments :: "world \<Rightarrow> string \<Rightarrow> Assignment list" where
  "workspace_assignments w workspaceId =
     filter (\<lambda>a. question_id a \<in> set (workspace_questions w workspaceId)) (judge_assignments w)"

definition owned_judges :: "world \<Rightarrow> string \<Rightarrow> string \<Rightarrow> judge_row list" where
  "owned_judges w workspaceId userId =
     filter (\<lambda>j. j_id j \<in> set (map judge_id (workspace_assignments w workspaceId))
                  \<and> j_user_id j = userId) (judges w)"

text \<open>
  What C9 says of a response: a success summary counts its results, the three counters
  add up to the total, and every verdict is one of the three literals.
\<close>

definition sound_response :: "http_response \<Rightarrow> bool" where
  "sound_response resp =
     (case resp of
        Success s \<Rightarrow> processed s = length (results s)
                     \<and> processed s = passed s + failed s + inconclusive s
                     \<and> list_all (\<lambda>r. verdict r \<in> {''pass'', ''fail'', ''inconclusive''}) (results s)
      | _ \<Rightarrow> True)"


section \<open>Sample data\<close>

text \<open>
  A parser for the texts used in the examples: it maps each of them to the value that
  \<^verbatim>\<open>JSON.parse\<close> gives, and rejects every other text.
\<close>

definition content_pass :: string where
  \<open>content_pass = ''{"verdict":"pass","reasoning":"B is right"}''\<close>

definition content_zero :: string where
  \<open>content_zero = ''{"verdict":"pass","reasoning":0}''\<close>

definition body_pass :: string where
  \<open>body_pass = ''{"choices":[{"message":{"content":'' @ quote_json content_pass @ ''}}]}''\<close>

definition body_garbled :: string where
  \<open>body_garbled = ''{"choices":[{"message":{"content":"not json"}}]}''\<close>

definition body_temperature :: string where
  \<open>body_temperature =
     ''{"error":{"message":"Unsupported value","param":"temperature","code":"unsupported_value"}}''\<close>

definition body_structured_message :: string where
  \<open>body_structured_message =
     ''{"error":{"message":{"detail":"bad request"},"hint":"temperature does not support 0"}}''\<close>

definition sample_parse :: json_parser where
  "sample_parse s =
     (if s = content_pass then
        Some (JObj [(''verdict'', JStr ''pass''), (''reasoning'', JStr ''B is right'')])
      else if s = content_zero then
        Some (JObj [(''verdict'', JStr ''pass''), (''reasoning'', JNum 0)])
      else if s = body_pass then
        Some (JObj [(''choices'', JArr [JObj [(''message'', JObj [(''content'', JStr content_pass)])]])])
      else if s = body_garbled then
        Some (JObj [(''choices'', JArr [JObj [(''message'', JObj [(''content'', JStr ''not json'')])]])])
      else if s = body_temperature then
        Some (JObj [(''error'', JObj [(''message'', JStr ''Unsupported value''),
                                     (''param'', JStr ''temperature''),
                                     (''code'', JStr ''unsupported_value'')])])
      else if s = body_structured_message then
        Some (JObj [(''error'', JObj [(''message'', JObj [(''detail'', JStr ''bad request'')]),
                                     (''hint'', JStr ''temperature does not support 0'')])])
      else if s = ''null'' then Some JNull
      else None)"

text \<open>
  A provider that rejects the first request it sees with the temperature error and
  answers every later one with a verdict.
\<close>

definition sample_provider :: "chat_request list \<Rightarrow> fetch_outcome" where
  "sample_provider log =
     (if length log = 1 then Responded \<lparr>status = 400, body = body_temperature\<rparr>
      else Responded \<lparr>status = 200, body = body_pass\<rparr>)"

text \<open>
  A provider whose first answer is an error with a structured message and no code; the
  words of the rejection stand in another field of the body.
\<close>

definition structured_provider :: "chat_request list \<Rightarrow> fetch_outcome" where
  "structured_provider log =
     (if length log = 1 then Responded \<lparr>status = 400, body = body_structured_message\<rparr>
      else Responded \<lparr>status = 200, body = body_pass\<rparr>)"

text \<open>A provider that cannot be reached: every \<^verbatim>\<open>fetch\<close> is rejected.\<close>

definition unreachable_provider :: "chat_request list \<Rightarrow> fetch_outcome" where
  "unreachable_provider log = Rejected (JsError ''TypeError'' ''fetch failed'')"

text \<open>
  A workspace \<open>w1\<close> of user \<open>u1\<close> with one submission and one question, which has no
  answer row; of the user's judges \<open>j1\<close> and \<open>j2\<close>, \<open>j1\<close> is assigned to the question.
  Of the three stored evaluations, one is for the assigned pair, one for the pair
  \<open>(q1, j2)\<close>, which is not assigned (any more), and one belongs to a question of
  another workspace, \<open>w9\<close>. Workspace \<open>w2\<close> has a submission without questions, and
  there is no workspace \<open>w0\<close>.
\<close>

definition sample_world :: world where
  "sample_world = \<lparr>
     submissions = [\<lparr>sub_id = ''s1'', sub_workspace_id = ''w1''\<rparr>,
                    \<lparr>sub_id = ''s2'', sub_workspace_id = ''w2''\<rparr>,
                    \<lparr>sub_id = ''s9'', sub_workspace_id = ''w9''\<rparr>],
     questions = [\<lparr>q_id = ''q1'', q_question_text = ''Is the sky blue?'',
                   q_question_type = None, q_submission_id = ''s1''\<rparr>,
                  \<lparr>q_id = ''q9'', q_question_text = ''Is water wet?'',
                   q_question_type = Some ''free_form'', q_submission_id = ''s9''\<rparr>],
     answers = [],
     judge_assignments = [\<lparr>judge_id = ''j1'', question_id = ''q1''\<rparr>],
     judges = [\<lparr>j_id = ''j1'', j_user_id = ''u1'', j_name = ''Strict'',
                j_system_prompt = ''Grade.'', j_model = ''gpt-4''\<rparr>,
               \<lparr>j_id = ''j2'', j_user_id = ''u1'', j_name = ''Lenient'',
                j_system_prompt = ''Be kind.'', j_model = ''gpt-4''\<rparr>],
     evaluations = [\<lparr>ev_id = 7, ev_submission_id = ''s1'', ev_question_id = ''q1'',
                     ev_judge_id = ''j2'', ev_verdict = ''fail'', ev_reasoning = JNull\<rparr>,
                    \<lparr>ev_id = 8, ev_submission_id = ''s1'', ev_question_id = ''q1'',
                     ev_judge_id = ''j1'', ev_verdict = ''fail'', ev_reasoning = JNull\<rparr>,
                    \<lparr>ev_id = 9, ev_submission_id = ''s9'', ev_question_id = ''q9'',
                     ev_judge_id = ''j2'', ev_verdict = ''pass'', ev_reasoning = JNull\<rparr>],
     db_faults = [],
     provider = sample_provider,
     sent = []\<rparr>"

text \<open>The same judges in the hands of another user.\<close>

definition foreign_judges :: "judge_row list" where
  "foreign_judges =
     [\<lparr>j_id = ''j1'', j_user_id = ''u2'', j_name = ''Strict'',
       j_system_prompt = ''Grade.'', j_model = ''gpt-4''\<rparr>,
      \<lparr>j_id = ''j2'', j_user_id = ''u2'', j_name = ''Lenient'',
       j_system_prompt = ''Be kind.'', j_model = ''gpt-4''\<rparr>]"

text \<open>The request of user \<open>u1\<close> to run the evaluations of a workspace.\<close>

definition request_for :: "string \<Rightarrow> http_request" where
  "request_for workspaceId = \<lparr>req_method = ''POST'',
     req_json = Inr (JObj [(''workspaceId'', JStr workspaceId), (''userId'', JStr ''u1'')])\<rparr>"

definition sample_request :: http_request where
  "sample_request = request_for ''w1''"

section \<open>Properties of the Prompt Builder\<close>

lemma sublist_join: "x \<in> set ls \<Longrightarrow> sublist x (join sep ls)"
proof (induction sep ls rule: join.induct)
  case (3 sep a b bs)
  show ?case
  proof (cases "x = a")
    case True
    then show ?thesis by simp
  next
    case False
    with 3 have "sublist x (join sep (b # bs))" by simp
    then obtain ps ss where "join sep (b # bs) = ps @ x @ ss" by (auto simp: sublist_def)
    then have "join sep (a # b # bs) = (a @ sep @ ps) @ x @ ss" by simp
    then show ?thesis unfolding sublist_def by blast
  qed
qed simp_all

lemma stringify_at_None: "stringify_at ind v = None \<longleftrightarrow> v = JUndefined"
  by (cases v) (simp_all add: Let_def)

lemma respond_line_format: "sublist verdict_format respond_line"
proof -
  have \<open>respond_line = ''- Respond with JSON: '' @ verdict_format @ ''"}''\<close>
    by (simp add: respond_line_def verdict_format_def)
  then show ?thesis by (metis sublist_appendI)
qed

lemma respond_line_default_format: "sublist verdict_format respond_line_default"
proof -
  have \<open>respond_line_default =
          ''Evaluate this answer and respond with JSON in this exact format: ''
          @ verdict_format @ '' here"}''\<close>
    by (simp add: respond_line_default_def verdict_format_def)
  then show ?thesis by (metis sublist_appendI)
qed

text \<open>
  Each template is a list of lines: the question line, the stringified answer and the
  closing instruction are among them in every branch.
\<close>

lemma in_prompt:
  assumes "x = ''Question: '' @ questionText \<or> x = interpolate (JSON_stringify answerJson)
           \<or> (x = respond_line \<and> qt \<in> {Some ''multiple_choice'',
                   Some ''single_choice_with_reasoning'', Some ''free_form''})
           \<or> (x = respond_line_default \<and> qt \<notin> {Some ''multiple_choice'',
                   Some ''single_choice_with_reasoning'', Some ''free_form''})"
  shows "sublist x (buildTypeSpecificPrompt qt questionText answerJson)"
proof -
  consider (mc) "qt = Some ''multiple_choice''"
    | (sc) "qt = Some ''single_choice_with_reasoning''"
    | (ff) "qt = Some ''free_form''"
    | (other) "qt \<noteq> Some ''multiple_choice''" "qt \<noteq> Some ''single_choice_with_reasoning''"
        "qt \<noteq> Some ''free_form''"
    by blast
  then show ?thesis
  proof cases
    case mc
    with assms have mem: "x = ''Question: '' @ questionText
        \<or> x = interpolate (JSON_stringify answerJson) \<or> x = respond_line"
      by auto
    show ?thesis
      unfolding buildTypeSpecificPrompt_def lines_text_def Let_def mc
      apply (subst if_P, rule refl)
      apply (rule sublist_join)
      using mem
      apply (elim disjE; hypsubst)
      apply ((rule list.set_intros(1) | rule list.set_intros(2))+)+
      done
  next
    case sc
    with assms have mem: "x = ''Question: '' @ questionText
        \<or> x = interpolate (JSON_stringify answerJson) \<or> x = respond_line"
      by auto
    show ?thesis
      unfolding buildTypeSpecificPrompt_def lines_text_def Let_def sc
      apply (subst if_not_P, simp)
      apply (subst if_P, rule refl)
      apply (rule sublist_join)
      using mem
      apply (elim disjE; hypsubst)
      apply ((rule list.set_intros(1) | rule list.set_intros(2))+)+
      done
  next
    case ff
    with assms have mem: "x = ''Question: '' @ questionText
        \<or> x = interpolate (JSON_stringify answerJson) \<or> x = respond_line"
      by auto
    show ?thesis
      unfolding buildTypeSpecificPrompt_def lines_text_def Let_def ff
      apply (subst if_not_P, simp)
      apply (subst if_not_P, simp)
      apply (subst if_P, rule refl)
      apply (rule sublist_join)
      using mem
      apply (elim disjE; hypsubst)
      apply ((rule list.set_intros(1) | rule list.set_intros(2))+)+
      done
  next
    case other
    with assms have mem: "x = ''Question: '' @ questionText
        \<or> x = interpolate (JSON_stringify answerJson) \<or> x = respond_line_default"
      by auto
    show ?thesis
      unfolding buildTypeSpecificPrompt_def lines_text_def Let_def
      apply (subst if_not_P, rule other(1))
      apply (subst if_not_P, rule other(2))
      apply (subst if_not_P, rule other(3))
      apply (rule sublist_join)
      using mem
      apply (elim disjE; hypsubst)
      apply ((rule list.set_intros(1) | rule list.set_intros(2))+)+
      done
  qed
qed

text \<open>
  C8. For every question type (a known one, \<open>null\<close> or any other string), question text
  and answer payload, the prompt contains the question text, contains the text that
  \<^verbatim>\<open>JSON.stringify\<close> gives for the payload (for the one value that has none,
  \<open>undefined\<close>, it contains the word \<^verbatim>\<open>undefined\<close>), and contains the instruction to
  answer with a JSON object that has a verdict field, one of the three literals, and a
  reasoning field.
\<close>

theorem prompt_contains_question_answer_and_format:
  "sublist questionText (buildTypeSpecificPrompt qt questionText answerJson)
   \<and> (case JSON_stringify answerJson of
         Some s \<Rightarrow> sublist s (buildTypeSpecificPrompt qt questionText answerJson)
       | None \<Rightarrow> answerJson = JUndefined
                 \<and> sublist ''undefined'' (buildTypeSpecificPrompt qt questionText answerJson))
   \<and> sublist verdict_format (buildTypeSpecificPrompt qt questionText answerJson)"
proof -
  let ?p = "buildTypeSpecificPrompt qt questionText answerJson"
  have "sublist (''Question: '' @ questionText) ?p"
    by (rule in_prompt) simp
  moreover have "sublist questionText (''Question: '' @ questionText)"
    by (rule sublist_append_leftI)
  ultimately have 1: "sublist questionText ?p"
    by (meson sublist_order.order_trans)
  have 2: "sublist (interpolate (JSON_stringify answerJson)) ?p"
    by (rule in_prompt) simp
  have "sublist respond_line ?p \<or> sublist respond_line_default ?p"
  proof (cases "qt \<in> {Some ''multiple_choice'', Some ''single_choice_with_reasoning'', Some ''free_form''}")
    case True
    then have "sublist respond_line ?p" by (intro in_prompt) blast
    then show ?thesis ..
  next
    case False
    then have "sublist respond_line_default ?p" by (intro in_prompt) blast
    then show ?thesis ..
  qed
  then have 3: "sublist verdict_format ?p"
    by (meson sublist_order.order_trans respond_line_format respond_line_default_format)
  from 2 have 4: "(case JSON_stringify answerJson of
         Some s \<Rightarrow> sublist s ?p
       | None \<Rightarrow> answerJson = JUndefined \<and> sublist ''undefined'' ?p)"
    by (auto simp: interpolate_def JSON_stringify_def stringify_at_None split: option.splits)
  from 1 4 3 show ?thesis by blast
qed

section \<open>Properties of the reconciliation step\<close>

lemma db_request_tables:
  assumes "db_request w = (f, w1)"
  shows "evaluations w1 = evaluations w" "submissions w1 = submissions w" "questions w1 = questions w"
    "answers w1 = answers w" "judge_assignments w1 = judge_assignments w" "judges w1 = judges w"
    "provider w1 = provider w" "sent w1 = sent w"
  using assms by (auto simp: db_request_def split: list.splits)

lemma filter_by_ids:
  assumes "distinct (map ev_id evs)" and "set del \<subseteq> set evs"
  shows "filter (\<lambda>e. ev_id e \<notin> set (map ev_id del)) evs = filter (\<lambda>e. e \<notin> set del) evs"
proof (rule filter_cong[OF refl])
  fix e assume e: "e \<in> set evs"
  from assms(1) have inj: "inj_on ev_id (set evs)" by (simp add: distinct_map)
  show "(ev_id e \<notin> set (map ev_id del)) = (e \<notin> set del)"
    using inj e assms(2) by (auto simp: inj_on_def)
qed

lemma deleteOldEvaluations_result:
  assumes "distinct (map ev_id (evaluations w))"
      and "deleteOldEvaluations questionIds currentAssignments w = (r, w')"
  shows "evaluations w' = evaluations w \<or>
         evaluations w' = filter (\<lambda>e. \<not> (ev_question_id e \<in> set questionIds
            \<and> pairKey (ev_question_id e) (ev_judge_id e)
                 \<notin> set (map (\<lambda>a. pairKey (question_id a) (judge_id a)) currentAssignments))) (evaluations w)"
proof -
  obtain f1 w1 where r1: "db_request w = (f1, w1)" by (cases "db_request w")
  obtain f2 w2 where r2: "db_request w1 = (f2, w2)" by (cases "db_request w1")
  note t1 = db_request_tables(1)[OF r1] and t2 = db_request_tables(1)[OF r2]
  let ?ex = "filter (\<lambda>e. ev_question_id e \<in> set questionIds) (evaluations w)"
  let ?del = "filter (\<lambda>e. pairKey (ev_question_id e) (ev_judge_id e)
                 \<notin> set (map (\<lambda>a. pairKey (question_id a) (judge_id a)) currentAssignments)) ?ex"
  have "set ?del \<subseteq> set (evaluations w)" by auto
  from filter_by_ids[OF assms(1) this]
  have "filter (\<lambda>e. ev_id e \<notin> set (map ev_id ?del)) (evaluations w)
        = filter (\<lambda>e. e \<notin> set ?del) (evaluations w)" .
  also have "\<dots> = filter (\<lambda>e. \<not> (ev_question_id e \<in> set questionIds
            \<and> pairKey (ev_question_id e) (ev_judge_id e)
                 \<notin> set (map (\<lambda>a. pairKey (question_id a) (judge_id a)) currentAssignments))) (evaluations w)"
    by (rule filter_cong) auto
  finally have del: "filter (\<lambda>e. ev_id e \<notin> set (map ev_id ?del)) (evaluations w) = \<dots>" .
  show ?thesis
    using assms(2) del t1 t2
    by (auto simp: deleteOldEvaluations_def Let_def r1 r2 split: if_splits option.splits)
qed

lemma deleteOldEvaluations_other_tables:
  assumes "deleteOldEvaluations questionIds currentAssignments w = (r, w')"
  shows "submissions w' = submissions w \<and> questions w' = questions w \<and> answers w' = answers w
         \<and> judge_assignments w' = judge_assignments w \<and> judges w' = judges w
         \<and> provider w' = provider w \<and> sent w' = sent w"
proof -
  obtain f1 w1 where r1: "db_request w = (f1, w1)" by (cases "db_request w")
  obtain f2 w2 where r2: "db_request w1 = (f2, w2)" by (cases "db_request w1")
  show ?thesis
    using assms db_request_tables[OF r1] db_request_tables[OF r2]
    by (auto simp: deleteOldEvaluations_def Let_def r1 r2 split: if_splits option.splits)
qed

text \<open>
  C10. Whatever \<^verbatim>\<open>deleteOldEvaluations\<close> returns, a row of the evaluations table that
  is gone afterwards had its question in the given list of question ids and its
  (question, judge) pair in none of the current assignments; the rows that remain are
  the old rows, unchanged and in their order, and no other table changes. Every other
  row is therefore still there. The ids of the evaluation rows are distinct (\<^verbatim>\<open>id\<close> is
  the primary key).
\<close>

theorem reconciliation_frame:
  assumes "distinct (map ev_id (evaluations w))"
      and "deleteOldEvaluations questionIds currentAssignments w = (r, w')"
  shows "(\<forall>e\<in>set (evaluations w). e \<notin> set (evaluations w') \<longrightarrow>
            ev_question_id e \<in> set questionIds
            \<and> (\<forall>a\<in>set currentAssignments.
                  \<not> (question_id a = ev_question_id e \<and> judge_id a = ev_judge_id e)))
       \<and> evaluations w' = filter (\<lambda>e. e \<in> set (evaluations w')) (evaluations w)
       \<and> submissions w' = submissions w \<and> questions w' = questions w \<and> answers w' = answers w
       \<and> judge_assignments w' = judge_assignments w \<and> judges w' = judges w"
proof -
  let ?keep = "\<lambda>e. \<not> (ev_question_id e \<in> set questionIds
            \<and> pairKey (ev_question_id e) (ev_judge_id e)
                 \<notin> set (map (\<lambda>a. pairKey (question_id a) (judge_id a)) currentAssignments))"
  from deleteOldEvaluations_result[OF assms]
  consider (same) "evaluations w' = evaluations w"
    | (pruned) "evaluations w' = filter ?keep (evaluations w)" by blast
  then have A: "(\<forall>e\<in>set (evaluations w). e \<notin> set (evaluations w') \<longrightarrow>
            ev_question_id e \<in> set questionIds
            \<and> (\<forall>a\<in>set currentAssignments.
                  \<not> (question_id a = ev_question_id e \<and> judge_id a = ev_judge_id e)))
       \<and> evaluations w' = filter (\<lambda>e. e \<in> set (evaluations w')) (evaluations w)"
  proof cases
    case same
    then show ?thesis by simp
  next
    case pruned
    have 1: "filter (\<lambda>e. e \<in> set (filter ?keep (evaluations w))) (evaluations w)
             = filter ?keep (evaluations w)"
      by (rule filter_cong) auto
    have 2: "\<forall>e\<in>set (evaluations w). e \<notin> set (filter ?keep (evaluations w)) \<longrightarrow>
            ev_question_id e \<in> set questionIds
            \<and> (\<forall>a\<in>set currentAssignments.
                  \<not> (question_id a = ev_question_id e \<and> judge_id a = ev_judge_id e))"
    proof (intro ballI impI)
      fix e assume e: "e \<in> set (evaluations w)" and gone: "e \<notin> set (filter ?keep (evaluations w))"
      then have k: "\<not> ?keep e" by simp
      then have q: "ev_question_id e \<in> set questionIds" by blast
      from k have v: "pairKey (ev_question_id e) (ev_judge_id e)
                 \<notin> set (map (\<lambda>a. pairKey (question_id a) (judge_id a)) currentAssignments)" by blast
      have "\<not> (question_id a = ev_question_id e \<and> judge_id a = ev_judge_id e)"
        if a: "a \<in> set currentAssignments" for a
      proof
        assume "question_id a = ev_question_id e \<and> judge_id a = ev_judge_id e"
        then have "pairKey (ev_question_id e) (ev_judge_id e) = (\<lambda>a. pairKey (question_id a) (judge_id a)) a"
          by simp
        with a have "pairKey (ev_question_id e) (ev_judge_id e)
                 \<in> set (map (\<lambda>a. pairKey (question_id a) (judge_id a)) currentAssignments)"
          unfolding set_map by (rule rev_image_eqI)
        with v show False by contradiction
      qed
      with q show "ev_question_id e \<in> set questionIds
            \<and> (\<forall>a\<in>set currentAssignments.
                  \<not> (question_id a = ev_question_id e \<and> judge_id a = ev_judge_id e))" by blast
    qed
    from 2 1[symmetric] show ?thesis unfolding pruned by (rule conjI)
  qed
  with deleteOldEvaluations_other_tables[OF assms(2)] show ?thesis by simp
qed

theorem reconciliation_frame_witness:
  "distinct (map ev_id (evaluations sample_world))
   \<and> fst (deleteOldEvaluations [''q1''] [\<lparr>judge_id = ''j1'', question_id = ''q1''\<rparr>] sample_world) = Inr ()
   \<and> evaluations (snd (deleteOldEvaluations [''q1''] [\<lparr>judge_id = ''j1'', question_id = ''q1''\<rparr>] sample_world))
       = [\<lparr>ev_id = 8, ev_submission_id = ''s1'', ev_question_id = ''q1'',
           ev_judge_id = ''j1'', ev_verdict = ''fail'', ev_reasoning = JNull\<rparr>,
          \<lparr>ev_id = 9, ev_submission_id = ''s9'', ev_question_id = ''q9'',
           ev_judge_id = ''j2'', ev_verdict = ''pass'', ev_reasoning = JNull\<rparr>]
   \<and> judges (snd (deleteOldEvaluations [''q1''] [\<lparr>judge_id = ''j1'', question_id = ''q1''\<rparr>] sample_world))
       = judges sample_world"
proof -
  let ?run = "deleteOldEvaluations [''q1''] [\<lparr>judge_id = ''j1'', question_id = ''q1''\<rparr>] sample_world"
  have d: "distinct (map ev_id (evaluations sample_world))"
    by (simp add: sample_world_def)
  have e: "?run = (fst ?run, snd ?run)" by simp
  have 1: "fst ?run = Inr ()" by code_simp
  have 2: "evaluations (snd ?run)
       = [\<lparr>ev_id = 8, ev_submission_id = ''s1'', ev_question_id = ''q1'',
           ev_judge_id = ''j1'', ev_verdict = ''fail'', ev_reasoning = JNull\<rparr>,
          \<lparr>ev_id = 9, ev_submission_id = ''s9'', ev_question_id = ''q9'',
           ev_judge_id = ''j2'', ev_verdict = ''pass'', ev_reasoning = JNull\<rparr>]" by code_simp
  from reconciliation_frame[OF d e] have 3: "judges (snd ?run) = judges sample_world" by blast
  from d 1 2 3 show ?thesis by blast
qed

lemma pairKey_injective:
  assumes "pairKey q j = pairKey q' j'" and "CHR '':'' \<notin> set q" and "CHR '':'' \<notin> set q'"
  shows "q = q' \<and> j = j'"
proof -
  from assms(1) have e: "q @ CHR '':'' # j = q' @ CHR '':'' # j'" by (simp add: pairKey_def)
  have "\<And>x. x \<in> set q \<Longrightarrow> x \<noteq> CHR '':''" using assms(2) by auto
  then have 1: "takeWhile (\<lambda>c. c \<noteq> CHR '':'') (q @ CHR '':'' # j) = q"
    by (simp add: takeWhile_append2)
  have "\<And>x. x \<in> set q' \<Longrightarrow> x \<noteq> CHR '':''" using assms(3) by auto
  then have 2: "takeWhile (\<lambda>c. c \<noteq> CHR '':'') (q' @ CHR '':'' # j') = q'"
    by (simp add: takeWhile_append2)
  from 1 2 e have "q = q'" by simp
  with e show ?thesis by simp
qed

lemma delete_by_ids:
  assumes "distinct (map ev_id evs)"
  shows "filter (\<lambda>e. ev_id e \<notin> set (map ev_id (filter B (filter A evs)))) evs
           = filter (\<lambda>e. \<not> (A e \<and> B e)) evs"
proof -
  have "set (filter B (filter A evs)) \<subseteq> set evs" by auto
  from filter_by_ids[OF assms this]
  have "filter (\<lambda>e. ev_id e \<notin> set (map ev_id (filter B (filter A evs)))) evs
        = filter (\<lambda>e. e \<notin> set (filter B (filter A evs))) evs" .
  also have "\<dots> = filter (\<lambda>e. \<not> (A e \<and> B e)) evs"
    by (rule filter_cong) auto
  finally show ?thesis .
qed

text \<open>
  When the reconciliation step is reached and succeeds, the evaluations that remain are
  those whose question is not in the list or whose key is the key of a current
  assignment; with question ids that hold no colon (uuids), every remaining evaluation of
  the given questions has the pair of a current assignment.
\<close>

lemma deleteOldEvaluations_success:
  assumes d: "distinct (map ev_id (evaluations w))"
      and run: "deleteOldEvaluations questionIds currentAssignments w = (Inr u, w')"
  shows "evaluations w' = filter (\<lambda>e. \<not> (ev_question_id e \<in> set questionIds
            \<and> pairKey (ev_question_id e) (ev_judge_id e)
                 \<notin> set (map (\<lambda>a. pairKey (question_id a) (judge_id a)) currentAssignments)))
            (evaluations w)"
proof -
  let ?A = "\<lambda>e. ev_question_id e \<in> set questionIds"
  let ?B = "\<lambda>e. pairKey (ev_question_id e) (ev_judge_id e)
                 \<notin> set (map (\<lambda>a. pairKey (question_id a) (judge_id a)) currentAssignments)"
  let ?evs = "evaluations w"
  obtain f1 w1 where r1: "db_request w = (f1, w1)" by (cases "db_request w")
  obtain f2 w2 where r2: "db_request w1 = (f2, w2)" by (cases "db_request w1")
  note t1 = db_request_tables(1)[OF r1] and t2 = db_request_tables(1)[OF r2]
  have none: "filter (\<lambda>e. \<not> (?A e \<and> ?B e)) ?evs = ?evs" if "filter ?B (filter ?A ?evs) = []"
    using that by (auto simp: filter_empty_conv filter_id_conv)
  show ?thesis
  proof (cases "questionIds = []")
    case True
    with run have "w' = w" by (simp add: deleteOldEvaluations_def)
    with True show ?thesis by simp
  next
    case q: False
    show ?thesis
    proof (cases f1)
      case (Some e)
      with run q r1 show ?thesis by (simp add: deleteOldEvaluations_def Let_def)
    next
      case f1: None
      show ?thesis
      proof (cases "filter ?B (filter ?A ?evs) = []")
        case True
        with run q r1 f1 t1 have "w' = w1"
          by (simp add: deleteOldEvaluations_def Let_def split: if_splits)
        with t1 none[OF True] show ?thesis by simp
      next
        case False
        then have ex: "filter ?A ?evs \<noteq> []" by (metis filter.simps(1))
        show ?thesis
        proof (cases f2)
          case (Some e)
          with run q r1 f1 t1 r2 ex False show ?thesis
            by (simp add: deleteOldEvaluations_def Let_def)
        next
          case None
          with run q r1 f1 t1 r2 ex False
          have "w' = w2\<lparr>evaluations :=
                  filter (\<lambda>e. ev_id e \<notin> set (map ev_id (filter ?B (filter ?A ?evs)))) (evaluations w2)\<rparr>"
            by (simp add: deleteOldEvaluations_def Let_def)
          then have "evaluations w' = filter (\<lambda>e. ev_id e \<notin> set (map ev_id (filter ?B (filter ?A ?evs)))) ?evs"
            using t1 t2 by simp
          with delete_by_ids[OF d, of ?B ?A] show ?thesis by simp
        qed
      qed
    qed
  qed
qed

lemma reconciliation_prunes_stale_rows:
  assumes "distinct (map ev_id (evaluations w))"
      and "deleteOldEvaluations questionIds currentAssignments w = (Inr u, w')"
      and "\<forall>q\<in>set questionIds. CHR '':'' \<notin> set q"
      and "\<forall>a\<in>set currentAssignments. CHR '':'' \<notin> set (question_id a)"
  shows "\<forall>e\<in>set (evaluations w'). ev_question_id e \<in> set questionIds \<longrightarrow>
           (\<exists>a\<in>set currentAssignments. question_id a = ev_question_id e \<and> judge_id a = ev_judge_id e)"
proof (intro ballI impI)
  fix e assume e: "e \<in> set (evaluations w')" and q: "ev_question_id e \<in> set questionIds"
  from e q deleteOldEvaluations_success[OF assms(1,2)]
  have "pairKey (ev_question_id e) (ev_judge_id e)
          \<in> set (map (\<lambda>a. pairKey (question_id a) (judge_id a)) currentAssignments)"
    by auto
  then obtain a where a: "a \<in> set currentAssignments"
    and k: "pairKey (ev_question_id e) (ev_judge_id e) = pairKey (question_id a) (judge_id a)"
    by auto
  from pairKey_injective[OF k] q a assms(3,4)
  have "question_id a = ev_question_id e \<and> judge_id a = ev_judge_id e" by auto
  with a show "\<exists>a\<in>set currentAssignments. question_id a = ev_question_id e \<and> judge_id a = ev_judge_id e"
    by blast
qed

section \<open>Properties of the Response Validator\<close>

text \<open>
  C4. For every content string that is not valid JSON the validator returns exactly the
  verdict \<^verbatim>\<open>inconclusive\<close> with the reasoning \<^verbatim>\<open>Failed to parse LLM response as JSON\<close>.
  It does not throw: \<^verbatim>\<open>callOpenAI\<close> returns that result for an ok response which carries
  such a content.
\<close>

theorem invalid_json_content_is_inconclusive:
  assumes "JSON_parse content = None"
  shows "validate_content JSON_parse (JStr content)
           = \<lparr>or_verdict = ''inconclusive'',
              or_reasoning = JStr ''Failed to parse LLM response as JSON''\<rparr>
       \<and> (ok response \<and> response_content JSON_parse response = Inr (JStr content) \<and> content \<noteq> []
            \<longrightarrow> conclude JSON_parse model response
                  = Inr \<lparr>or_verdict = ''inconclusive'',
                         or_reasoning = JStr ''Failed to parse LLM response as JSON''\<rparr>)"
  using assms by (simp add: validate_content_def conclude_def parse_failure_def)

theorem invalid_json_content_is_inconclusive_witness:
  "sample_parse ''not json'' = None
   \<and> validate_content sample_parse (JStr ''not json'')
       = \<lparr>or_verdict = ''inconclusive'',
          or_reasoning = JStr ''Failed to parse LLM response as JSON''\<rparr>
   \<and> conclude sample_parse ''gpt-4'' \<lparr>status = 200, body = body_garbled\<rparr>
       = Inr \<lparr>or_verdict = ''inconclusive'',
              or_reasoning = JStr ''Failed to parse LLM response as JSON''\<rparr>"
proof -
  have n: "sample_parse ''not json'' = None" by code_simp
  have o: "ok \<lparr>status = 200, body = body_garbled\<rparr>" by (simp add: ok_def)
  have c: "response_content sample_parse \<lparr>status = 200, body = body_garbled\<rparr> = Inr (JStr ''not json'')"
    by code_simp
  from invalid_json_content_is_inconclusive
         [where JSON_parse = sample_parse and content = "''not json''"
            and response = "\<lparr>status = 200, body = body_garbled\<rparr>" and model = "''gpt-4''", OF n] n o c
  show ?thesis by simp
qed

lemma validateVerdict_cases:
  "validateVerdict v =
     (if v \<in> {JStr ''pass'', JStr ''fail'', JStr ''inconclusive''} then js_to_string v
      else ''inconclusive'')"
  by (cases v) auto

text \<open>
  C5, as the code has it. For every content string that is valid JSON: when it denotes
  \<open>null\<close> the validator returns the same result as for a text that does not parse;
  otherwise it returns the parsed verdict when that is exactly one of the strings
  \<^verbatim>\<open>pass\<close>, \<^verbatim>\<open>fail\<close>, \<^verbatim>\<open>inconclusive\<close>, and \<^verbatim>\<open>inconclusive\<close> for any other or missing
  verdict, and it returns the parsed reasoning when that is truthy, else the empty
  string.
\<close>

theorem valid_json_content_is_validated:
  assumes "JSON_parse content = Some parsed"
  shows "validate_content JSON_parse (JStr content) =
     (if parsed = JNull \<or> parsed = JUndefined then
        \<lparr>or_verdict = ''inconclusive'',
         or_reasoning = JStr ''Failed to parse LLM response as JSON''\<rparr>
      else
        \<lparr>or_verdict =
           (if opt_prop parsed ''verdict'' \<in> {JStr ''pass'', JStr ''fail'', JStr ''inconclusive''}
            then js_to_string (opt_prop parsed ''verdict'') else ''inconclusive''),
         or_reasoning =
           (if truthy (opt_prop parsed ''reasoning'') then opt_prop parsed ''reasoning''
            else JStr [])\<rparr>)"
  using assms
  by (cases parsed) (simp_all add: validate_content_def parse_failure_def validateVerdict_cases)

theorem valid_json_content_is_validated_witness:
  "sample_parse content_pass
     = Some (JObj [(''verdict'', JStr ''pass''), (''reasoning'', JStr ''B is right'')])
   \<and> validate_content sample_parse (JStr content_pass)
       = \<lparr>or_verdict = ''pass'', or_reasoning = JStr ''B is right''\<rparr>"
proof -
  have p: "sample_parse content_pass
     = Some (JObj [(''verdict'', JStr ''pass''), (''reasoning'', JStr ''B is right'')])"
    by (simp add: sample_parse_def)
  from valid_json_content_is_validated
         [where JSON_parse = sample_parse and content = content_pass, OF p] p
  show ?thesis by simp
qed

text \<open>
  The claim as stated fails at two contents that are valid JSON. For \<^verbatim>\<open>null\<close> the
  reasoning is absent, and the result carries the parse-failure text, not the empty
  string. For an object whose reasoning is the number 0 the reasoning is present, and the
  result carries the empty string.
\<close>

theorem valid_json_content_counterexample:
  "sample_parse ''null'' = Some JNull
   \<and> or_reasoning (validate_content sample_parse (JStr ''null''))
       = JStr ''Failed to parse LLM response as JSON''
   \<and> or_reasoning (validate_content sample_parse (JStr ''null'')) \<noteq> JStr []
   \<and> sample_parse content_zero = Some (JObj [(''verdict'', JStr ''pass''), (''reasoning'', JNum 0)])
   \<and> or_reasoning (validate_content sample_parse (JStr content_zero)) = JStr []
   \<and> or_reasoning (validate_content sample_parse (JStr content_zero)) \<noteq> JNum 0"
  by code_simp

section \<open>Properties of the Evaluation Orchestrator\<close>

text \<open>
  C2. For every assignment, judge, question, API key and state of the world,
  \<^verbatim>\<open>evaluateAssignment\<close> returns a result object, never an exception, and the result
  names the question and the judge of the assignment. Either the model call and the
  save both went through, and the result carries the model's verdict with
  \<^verbatim>\<open>success: true\<close>; or one of them threw \<open>err\<close>, and then the function has run the
  fallback save of \<^verbatim>\<open>inconclusive\<close> with the reasoning \<^verbatim>\<open>Error: \<close> followed by the message
  for that pair, has gone on whatever that save returned, and the result is
  \<^verbatim>\<open>inconclusive\<close> with \<^verbatim>\<open>success: false\<close> and the message as \<^verbatim>\<open>error\<close>. The message is
  \<^verbatim>\<open>err.message\<close> when \<open>err\<close> is an Error and \<^verbatim>\<open>Unknown error\<close> otherwise.
\<close>

theorem evaluateAssignment_always_resolves:
  "\<exists>r w'. evaluateAssignment JSON_parse a judge question apiKey w = (Inr r, w')
     \<and> questionId r = question_id a \<and> judgeId r = judge_id a
     \<and> ((success r \<and> error r = None
          \<and> (\<exists>result w1.
                callOpenAI JSON_parse apiKey (jd_system_prompt judge) (qd_question_text question)
                  (qd_question_type question) (qd_answer_json question) (jd_model judge) w
                  = (Inr result, w1)
                \<and> saveEvaluation (qd_submission_id question) (question_id a) (judge_id a)
                    (or_verdict result)
                    (if truthy (or_reasoning result) then or_reasoning result else JNull) w1
                  = (Inr (), w')
                \<and> verdict r = or_verdict result))
        \<or> (success r = False \<and> verdict r = ''inconclusive''
          \<and> (\<exists>err w1.
                (callOpenAI JSON_parse apiKey (jd_system_prompt judge) (qd_question_text question)
                   (qd_question_type question) (qd_answer_json question) (jd_model judge) w
                   = (Inl err, w1)
                 \<or> (\<exists>result w0.
                       callOpenAI JSON_parse apiKey (jd_system_prompt judge)
                         (qd_question_text question) (qd_question_type question)
                         (qd_answer_json question) (jd_model judge) w
                         = (Inr result, w0)
                       \<and> saveEvaluation (qd_submission_id question) (question_id a) (judge_id a)
                           (or_verdict result)
                           (if truthy (or_reasoning result) then or_reasoning result else JNull) w0
                         = (Inl err, w1)))
                \<and> error r = Some (message_or_unknown err)
                \<and> w' = snd (saveEvaluation (qd_submission_id question) (question_id a)
                              (judge_id a) ''inconclusive''
                              (JStr (''Error: '' @ message_or_unknown err)) w1))))"
proof -
  let ?call = "callOpenAI JSON_parse apiKey (jd_system_prompt judge) (qd_question_text question)
                  (qd_question_type question) (qd_answer_json question) (jd_model judge) w"
  obtain c w1 where call: "?call = (c, w1)" by (cases ?call)
  show ?thesis
  proof (cases c)
    case (Inl err)
    with call show ?thesis
      by (simp add: evaluateAssignment_def Let_def)
  next
    case (Inr result)
    let ?save = "saveEvaluation (qd_submission_id question) (question_id a) (judge_id a)
                    (or_verdict result)
                    (if truthy (or_reasoning result) then or_reasoning result else JNull) w1"
    obtain s w2 where save: "?save = (s, w2)" by (cases ?save)
    show ?thesis
    proof (cases s)
      case (Inl err)
      with call Inr save show ?thesis
        by (simp add: evaluateAssignment_def Let_def)
    next
      case (Inr u)
      with call \<open>c = Inr result\<close> save show ?thesis
        by (simp add: evaluateAssignment_def Let_def)
    qed
  qed
qed

theorem evaluateAssignment_always_resolves_witness:
  "fst (evaluateAssignment sample_parse \<lparr>judge_id = ''j1'', question_id = ''q1''\<rparr>
          \<lparr>jd_id = ''j1'', jd_name = ''Strict'', jd_system_prompt = ''Grade.'', jd_model = ''gpt-4''\<rparr>
          \<lparr>qd_id = ''q1'', qd_question_text = ''Is the sky blue?'', qd_question_type = None,
           qd_answer_json = JNull, qd_submission_id = ''s1''\<rparr> ''sk''
          (sample_world\<lparr>provider := unreachable_provider,
                         db_faults := [Some (JsThrown (JObj [(''message'', JStr ''connection lost'')]))]\<rparr>))
     = Inr \<lparr>questionId = ''q1'', judgeId = ''j1'', verdict = ''inconclusive'', success = False,
            error = Some ''fetch failed''\<rparr>
   \<and> evaluations (snd (evaluateAssignment sample_parse \<lparr>judge_id = ''j1'', question_id = ''q1''\<rparr>
          \<lparr>jd_id = ''j1'', jd_name = ''Strict'', jd_system_prompt = ''Grade.'', jd_model = ''gpt-4''\<rparr>
          \<lparr>qd_id = ''q1'', qd_question_text = ''Is the sky blue?'', qd_question_type = None,
           qd_answer_json = JNull, qd_submission_id = ''s1''\<rparr> ''sk''
          (sample_world\<lparr>provider := unreachable_provider,
                         db_faults := [Some (JsThrown (JObj [(''message'', JStr ''connection lost'')]))]\<rparr>)))
     = evaluations sample_world
   \<and> evaluations (snd (evaluateAssignment sample_parse \<lparr>judge_id = ''j1'', question_id = ''q1''\<rparr>
          \<lparr>jd_id = ''j1'', jd_name = ''Strict'', jd_system_prompt = ''Grade.'', jd_model = ''gpt-4''\<rparr>
          \<lparr>qd_id = ''q1'', qd_question_text = ''Is the sky blue?'', qd_question_type = None,
           qd_answer_json = JNull, qd_submission_id = ''s1''\<rparr> ''sk''
          (sample_world\<lparr>provider := unreachable_provider\<rparr>)))
     = [\<lparr>ev_id = 7, ev_submission_id = ''s1'', ev_question_id = ''q1'',
         ev_judge_id = ''j2'', ev_verdict = ''fail'', ev_reasoning = JNull\<rparr>,
        \<lparr>ev_id = 8, ev_submission_id = ''s1'', ev_question_id = ''q1'',
         ev_judge_id = ''j1'', ev_verdict = ''inconclusive'',
         ev_reasoning = JStr ''Error: fetch failed''\<rparr>,
        \<lparr>ev_id = 9, ev_submission_id = ''s9'', ev_question_id = ''q9'',
         ev_judge_id = ''j2'', ev_verdict = ''pass'', ev_reasoning = JNull\<rparr>]"
proof -
  let ?a = "\<lparr>judge_id = ''j1'', question_id = ''q1''\<rparr>"
  let ?j = "\<lparr>jd_id = ''j1'', jd_name = ''Strict'', jd_system_prompt = ''Grade.'', jd_model = ''gpt-4''\<rparr>"
  let ?q = "\<lparr>qd_id = ''q1'', qd_question_text = ''Is the sky blue?'', qd_question_type = None,
           qd_answer_json = JNull, qd_submission_id = ''s1''\<rparr>"
  let ?w = "sample_world\<lparr>provider := unreachable_provider,
                         db_faults := [Some (JsThrown (JObj [(''message'', JStr ''connection lost'')]))]\<rparr>"
  from evaluateAssignment_always_resolves[of sample_parse ?a ?j ?q "''sk''" ?w]
  obtain r where r: "fst (evaluateAssignment sample_parse ?a ?j ?q ''sk'' ?w) = Inr r"
    and q: "questionId r = ''q1''" and j: "judgeId r = ''j1''"
    by auto
  have s: "success r = False \<and> verdict r = ''inconclusive'' \<and> error r = Some ''fetch failed''"
  proof -
    have "fst (evaluateAssignment sample_parse ?a ?j ?q ''sk'' ?w)
            = Inr \<lparr>questionId = ''q1'', judgeId = ''j1'', verdict = ''inconclusive'', success = False,
                   error = Some ''fetch failed''\<rparr>"
      by code_simp
    with r show ?thesis by auto
  qed
  from r q j s have 1: "fst (evaluateAssignment sample_parse ?a ?j ?q ''sk'' ?w)
     = Inr \<lparr>questionId = ''q1'', judgeId = ''j1'', verdict = ''inconclusive'', success = False,
            error = Some ''fetch failed''\<rparr>"
    by (cases r) simp
  have 2: "evaluations (snd (evaluateAssignment sample_parse ?a ?j ?q ''sk'' ?w)) = evaluations sample_world"
    by code_simp
  have 3: "evaluations (snd (evaluateAssignment sample_parse ?a ?j ?q ''sk''
              (sample_world\<lparr>provider := unreachable_provider\<rparr>)))
     = [\<lparr>ev_id = 7, ev_submission_id = ''s1'', ev_question_id = ''q1'',
         ev_judge_id = ''j2'', ev_verdict = ''fail'', ev_reasoning = JNull\<rparr>,
        \<lparr>ev_id = 8, ev_submission_id = ''s1'', ev_question_id = ''q1'',
         ev_judge_id = ''j1'', ev_verdict = ''inconclusive'',
         ev_reasoning = JStr ''Error: fetch failed''\<rparr>,
        \<lparr>ev_id = 9, ev_submission_id = ''s9'', ev_question_id = ''q9'',
         ev_judge_id = ''j2'', ev_verdict = ''pass'', ev_reasoning = JNull\<rparr>]"
    by code_simp
  from 1 2 3 show ?thesis by blast
qed

text \<open>A save that goes through leaves a row for the pair with the values given.\<close>

lemma saveEvaluation_stores:
  assumes "saveEvaluation sid qid jid v r w = (Inr (), w')"
  shows "\<exists>e\<in>set (evaluations w'). ev_question_id e = qid \<and> ev_judge_id e = jid
           \<and> ev_submission_id e = sid \<and> ev_verdict e = v \<and> ev_reasoning e = r"
proof -
  obtain f w1 where r1: "db_request w = (f, w1)" by (cases "db_request w")
  with assms have w': "w' = w1\<lparr>evaluations := upsert_evaluation sid qid jid v r (evaluations w1)\<rparr>"
    by (auto simp: saveEvaluation_def split: option.splits)
  show ?thesis
  proof (cases "list_ex (\<lambda>e. ev_question_id e = qid \<and> ev_judge_id e = jid) (evaluations w1)")
    case True
    then obtain e where "e \<in> set (evaluations w1)" "ev_question_id e = qid" "ev_judge_id e = jid"
      by (auto simp: list_ex_iff)
    then show ?thesis unfolding w' using True
      by (auto simp: upsert_evaluation_def intro!: bexI[where x = "e\<lparr>ev_submission_id := sid, ev_verdict := v, ev_reasoning := r\<rparr>"])
  next
    case False
    then show ?thesis unfolding w' by (simp add: upsert_evaluation_def)
  qed
qed

section \<open>Properties of the summary\<close>

lemma validateVerdict_valid: "validateVerdict v \<in> {''pass'', ''fail'', ''inconclusive''}"
  by (cases v) auto

lemma validate_content_valid:
  "or_verdict (validate_content JSON_parse content) \<in> {''pass'', ''fail'', ''inconclusive''}"
  using validateVerdict_valid
  by (auto simp: validate_content_def parse_failure_def split: option.splits sum.splits)

lemma conclude_valid:
  assumes "conclude JSON_parse model response = Inr res"
  shows "or_verdict res \<in> {''pass'', ''fail'', ''inconclusive''}"
  using assms validate_content_valid
  by (auto simp: conclude_def split: if_splits sum.splits)

lemma callOpenAI_valid:
  assumes "callOpenAI JSON_parse apiKey sys txt qt ans model w = (Inr res, w')"
  shows "or_verdict res \<in> {''pass'', ''fail'', ''inconclusive''}"
proof -
  from assms obtain response where "conclude JSON_parse model response = Inr res"
    by (auto simp: callOpenAI_def Let_def split: prod.splits sum.splits if_splits)
  then show ?thesis by (rule conclude_valid)
qed

lemma evaluateAssignment_valid:
  assumes "evaluateAssignment JSON_parse a judge question apiKey w = (Inr r, w')"
  shows "verdict r \<in> {''pass'', ''fail'', ''inconclusive''}"
proof -
  let ?call = "callOpenAI JSON_parse apiKey (jd_system_prompt judge) (qd_question_text question)
                  (qd_question_type question) (qd_answer_json question) (jd_model judge) w"
  obtain c w1 where call: "?call = (c, w1)" by (cases ?call)
  show ?thesis
  proof (cases c)
    case (Inl err)
    with call assms show ?thesis
      by (auto simp: evaluateAssignment_def Let_def)
  next
    case (Inr result)
    with call have v: "or_verdict result \<in> {''pass'', ''fail'', ''inconclusive''}"
      by (auto dest: callOpenAI_valid)
    from call Inr assms v show ?thesis
      by (auto simp: evaluateAssignment_def Let_def split: prod.splits sum.splits)
  qed
qed

lemma process_assignments_valid:
  assumes "process_assignments JSON_parse apiKey judgeMap questionMap as rs w = (Inr rs', w')"
      and "\<forall>r\<in>set rs. verdict r \<in> {''pass'', ''fail'', ''inconclusive''}"
  shows "\<forall>r\<in>set rs'. verdict r \<in> {''pass'', ''fail'', ''inconclusive''}"
  using assms
proof (induction as arbitrary: rs w)
  case Nil
  then show ?case by simp
next
  case (Cons a as)
  show ?case
  proof (cases "judgeMap (judge_id a)")
    case None
    with Cons show ?thesis by simp
  next
    case (Some judge)
    note j = this
    show ?thesis
    proof (cases "questionMap (question_id a)")
      case None
      with Cons j show ?thesis by simp
    next
      case (Some question)
      obtain e w1 where ev: "evaluateAssignment JSON_parse a judge question apiKey w = (e, w1)"
        by (cases "evaluateAssignment JSON_parse a judge question apiKey w")
      show ?thesis
      proof (cases e)
        case (Inl x)
        with Cons.prems j Some ev show ?thesis by simp
      next
        case (Inr r)
        with ev have "verdict r \<in> {''pass'', ''fail'', ''inconclusive''}"
          by (auto dest: evaluateAssignment_valid)
        with Cons.prems(2) have all: "\<forall>x\<in>set (rs @ [r]). verdict x \<in> {''pass'', ''fail'', ''inconclusive''}"
          by auto
        from Cons.prems(1) j Some ev Inr
        have "process_assignments JSON_parse apiKey judgeMap questionMap as (rs @ [r]) w1 = (Inr rs', w')"
          by simp
        from Cons.IH[OF this all] show ?thesis .
      qed
    qed
  qed
qed

lemma verdict_counts:
  assumes "\<forall>r\<in>set rs. verdict r \<in> {''pass'', ''fail'', ''inconclusive''}"
  shows "length rs = length (filter (\<lambda>r. verdict r = ''pass'') rs)
                   + length (filter (\<lambda>r. verdict r = ''fail'') rs)
                   + length (filter (\<lambda>r. verdict r = ''inconclusive'') rs)"
  using assms by (induction rs) auto

lemma successResponse_sound:
  assumes "\<forall>r\<in>set rs. verdict r \<in> {''pass'', ''fail'', ''inconclusive''}"
  shows "sound_response (successResponse rs)"
  using verdict_counts[OF assms] assms
  by (simp add: sound_response_def successResponse_def list_all_iff)

lemma evaluate_all_sound:
  assumes "evaluate_all JSON_parse apiKey qs answerMap assignments js w = (Inr resp, w')"
  shows "sound_response resp"
proof -
  from assms obtain rs where "resp = successResponse rs"
    and "\<forall>r\<in>set rs. verdict r \<in> {''pass'', ''fail'', ''inconclusive''}"
    by (auto simp: evaluate_all_def Let_def split: prod.splits sum.splits
             dest!: process_assignments_valid)
  then show ?thesis by (simp add: successResponse_sound)
qed

lemma resolve_and_evaluate_sound:
  assumes "resolve_and_evaluate JSON_parse apiKey userId qs answerMap w = (Inr resp, w')"
  shows "sound_response resp"
  using assms successResponse_sound[of "[]"]
  by (auto simp: resolve_and_evaluate_def split: prod.splits sum.splits if_splits
           dest: evaluate_all_sound)

lemma run_batch_sound:
  assumes "run_batch JSON_parse apiKey workspaceId userId w = (Inr resp, w')"
  shows "sound_response resp"
  using assms
  by (auto simp: run_batch_def split: prod.splits sum.splits dest: resolve_and_evaluate_sound)

lemma serve_try_sound:
  assumes "serve_try JSON_parse key req w = (Inr resp, w')"
  shows "sound_response resp"
  using assms
  by (auto simp: serve_try_def errorResponse_def sound_response_def
           split: option.splits sum.splits if_splits dest: run_batch_sound)

lemma serve_sound: "sound_response (fst (serve JSON_parse key req w))"
  by (auto simp: serve_def errorResponse_def split: prod.splits sum.splits dest: serve_try_sound)
     (simp_all add: sound_response_def)

text \<open>
  C9. In every success response of the endpoint, \<^verbatim>\<open>processed\<close> is the length of the
  results list and is the sum of \<^verbatim>\<open>passed\<close>, \<^verbatim>\<open>failed\<close> and \<^verbatim>\<open>inconclusive\<close>, and the
  verdict of every result is one of the three literals.
\<close>

theorem success_summary_counts:
  assumes "serve JSON_parse OPENAI_SECRET_KEY req w = (Success s, w')"
  shows "processed s = length (results s)
       \<and> processed s = passed s + failed s + inconclusive s
       \<and> (\<forall>r\<in>set (results s). verdict r \<in> {''pass'', ''fail'', ''inconclusive''})"
proof -
  from serve_sound[of JSON_parse OPENAI_SECRET_KEY req w] assms
  have "sound_response (Success s)" by simp
  then show ?thesis by (simp add: sound_response_def list_all_iff)
qed

theorem success_summary_counts_witness:
  "fst (serve sample_parse (Some ''sk'') sample_request sample_world)
     = Success \<lparr>sm_success = True, processed = 1, passed = 1, failed = 0, inconclusive = 0,
                results = [\<lparr>questionId = ''q1'', judgeId = ''j1'', verdict = ''pass'',
                            success = True, error = None\<rparr>]\<rparr>
   \<and> (1::nat) = length [\<lparr>questionId = ''q1'', judgeId = ''j1'', verdict = ''pass'',
                          success = True, error = None\<rparr>]
   \<and> (1::nat) = 1 + 0 + 0"
proof -
  let ?s = "\<lparr>sm_success = True, processed = 1, passed = 1, failed = 0, inconclusive = 0,
                results = [\<lparr>questionId = ''q1'', judgeId = ''j1'', verdict = ''pass'',
                            success = True, error = None\<rparr>]\<rparr>"
  let ?run = "serve sample_parse (Some ''sk'') sample_request sample_world"
  have f: "fst ?run = Success ?s" by code_simp
  then have "?run = (Success ?s, snd ?run)" by (metis prod.collapse)
  from success_summary_counts[OF this] f show ?thesis by simp
qed

section \<open>Properties of the Model Caller\<close>

lemma get_prop_opt_prop:
  "v \<noteq> JNull \<Longrightarrow> v \<noteq> JUndefined \<Longrightarrow> get_prop v k = Inr (opt_prop v k)"
  by (cases v) simp_all

lemma get_prop_null: "get_prop JNull k = Inl e \<longleftrightarrow> e = TypeError ''Cannot read properties of null''"
  by auto

lemma shouldRetry_iff: "shouldRetry JSON_parse text = temperature_rejection JSON_parse text"
proof (cases "JSON_parse text")
  case None
  then show ?thesis
    by (simp add: shouldRetry_def temperature_rejection_def mentions_rejection_def str_includes_def)
next
  case (Some d)
  show ?thesis
  proof (cases "d = JNull \<or> d = JUndefined")
    case True
    with Some show ?thesis
      by (auto simp: shouldRetry_def temperature_rejection_def mentions_rejection_def
            str_includes_def temperature_condition_def)
  next
    case False
    then have g: "get_prop d ''error'' = Inr (opt_prop d ''error'')"
      by (simp add: get_prop_opt_prop)
    show ?thesis
    proof (cases "opt_prop (opt_prop d ''error'') ''message''")
      case (JStr m)
      with Some False g show ?thesis
        by (auto simp: shouldRetry_def temperature_rejection_def mentions_rejection_def
              str_includes_def temperature_condition_def split: bool.splits)
    next
      case (JArr xs)
      with Some False g show ?thesis
        by (auto simp: shouldRetry_def temperature_rejection_def mentions_rejection_def
              str_includes_def temperature_condition_def split: bool.splits)
    qed (use Some False g in \<open>auto simp: shouldRetry_def temperature_rejection_def
          mentions_rejection_def str_includes_def temperature_condition_def split: bool.splits\<close>)
  qed
qed

lemma makeRequest_sent:
  assumes "makeRequest apiKey model systemPrompt userPrompt t w = (r, w')"
  shows "sent w' = sent w @ [\<lparr>rq_apiKey = apiKey, rq_model = model, rq_system = systemPrompt,
                              rq_user = userPrompt, rq_temperature = t\<rparr>]"
    and "provider w' = provider w"
  using assms
  by (auto simp: makeRequest_def Let_def split: fetch_outcome.splits thrown.splits if_splits)

lemma makeRequest_Responded:
  assumes "provider w (sent w @ [\<lparr>rq_apiKey = apiKey, rq_model = model, rq_system = systemPrompt,
                              rq_user = userPrompt, rq_temperature = t\<rparr>]) = Responded response"
  shows "fst (makeRequest apiKey model systemPrompt userPrompt t w) = Inr response"
  using assms by (simp add: makeRequest_def Let_def)

lemma callOpenAI_sent:
  "sent (snd (callOpenAI JSON_parse apiKey systemPrompt questionText questionType answerJson model w))
     = sent w @ [chat_request_for apiKey model systemPrompt questionType questionText answerJson
                   (supportsTemperature model)]
   \<or> sent (snd (callOpenAI JSON_parse apiKey systemPrompt questionText questionType answerJson model w))
     = sent w @ [chat_request_for apiKey model systemPrompt questionType questionText answerJson
                   (supportsTemperature model),
                 chat_request_for apiKey model systemPrompt questionType questionText answerJson False]"
proof -
  let ?p = "buildTypeSpecificPrompt questionType questionText answerJson"
  obtain r1 w1 where m1: "makeRequest apiKey model systemPrompt ?p (supportsTemperature model) w = (r1, w1)"
    by (cases "makeRequest apiKey model systemPrompt ?p (supportsTemperature model) w")
  obtain r2 w2 where m2: "makeRequest apiKey model systemPrompt ?p False w1 = (r2, w2)"
    by (cases "makeRequest apiKey model systemPrompt ?p False w1")
  from makeRequest_sent(1)[OF m1] makeRequest_sent(1)[OF m2] m1 m2
  show ?thesis
    by (auto simp: callOpenAI_def Let_def chat_request_for_def split: sum.splits)
qed

text \<open>
  C3, as the code has it. No call sends more than two requests. When the first response
  is not ok and its body is a temperature rejection, exactly one more request is sent,
  the same without the temperature field, and the call returns what it makes of the
  response to that request: the validated content when that response is ok and carries
  content. When the first response is not ok and its body is no temperature rejection,
  the call fails with no further request.
\<close>

theorem temperature_retry:
  "length (sent (snd (callOpenAI JSON_parse apiKey systemPrompt questionText questionType
                        answerJson model w))) \<le> length (sent w) + 2
   \<and> (provider w (sent w @ [chat_request_for apiKey model systemPrompt questionType questionText
                               answerJson (supportsTemperature model)]) = Responded r1
       \<and> \<not> ok r1 \<longrightarrow>
       (if temperature_rejection JSON_parse (body r1)
        then sent (snd (callOpenAI JSON_parse apiKey systemPrompt questionText questionType
                          answerJson model w))
               = sent w @ [chat_request_for apiKey model systemPrompt questionType questionText
                             answerJson (supportsTemperature model),
                           chat_request_for apiKey model systemPrompt questionType questionText
                             answerJson False]
             \<and> (\<forall>r2. provider w (sent w @ [chat_request_for apiKey model systemPrompt questionType
                                              questionText answerJson (supportsTemperature model),
                                            chat_request_for apiKey model systemPrompt questionType
                                              questionText answerJson False]) = Responded r2
                    \<longrightarrow> fst (callOpenAI JSON_parse apiKey systemPrompt questionText questionType
                              answerJson model w) = conclude JSON_parse model r2
                        \<and> (\<forall>content. ok r2 \<and> response_content JSON_parse r2 = Inr content
                                       \<and> truthy content
                              \<longrightarrow> fst (callOpenAI JSON_parse apiKey systemPrompt questionText
                                        questionType answerJson model w)
                                    = Inr (validate_content JSON_parse content)))
        else sent (snd (callOpenAI JSON_parse apiKey systemPrompt questionText questionType
                          answerJson model w))
               = sent w @ [chat_request_for apiKey model systemPrompt questionType questionText
                             answerJson (supportsTemperature model)]
             \<and> fst (callOpenAI JSON_parse apiKey systemPrompt questionText questionType
                      answerJson model w) = Inl (first_failure JSON_parse r1)))"
proof -
  let ?p = "buildTypeSpecificPrompt questionType questionText answerJson"
  let ?call = "callOpenAI JSON_parse apiKey systemPrompt questionText questionType answerJson model w"
  let ?rq1 = "chat_request_for apiKey model systemPrompt questionType questionText answerJson
                (supportsTemperature model)"
  let ?rq2 = "chat_request_for apiKey model systemPrompt questionType questionText answerJson False"
  have bound: "length (sent (snd ?call)) \<le> length (sent w) + 2"
    using callOpenAI_sent[of JSON_parse apiKey systemPrompt questionText questionType answerJson model w]
    by auto
  have main: "(if temperature_rejection JSON_parse (body r1)
        then sent (snd ?call) = sent w @ [?rq1, ?rq2]
             \<and> (\<forall>r2. provider w (sent w @ [?rq1, ?rq2]) = Responded r2
                    \<longrightarrow> fst ?call = conclude JSON_parse model r2
                        \<and> (\<forall>content. ok r2 \<and> response_content JSON_parse r2 = Inr content
                                       \<and> truthy content
                              \<longrightarrow> fst ?call = Inr (validate_content JSON_parse content)))
        else sent (snd ?call) = sent w @ [?rq1]
             \<and> fst ?call = Inl (first_failure JSON_parse r1))"
    if first: "provider w (sent w @ [?rq1]) = Responded r1" and bad: "\<not> ok r1"
  proof -
    obtain w1 where m1: "makeRequest apiKey model systemPrompt ?p (supportsTemperature model) w = (Inr r1, w1)"
      using first by (simp add: makeRequest_def Let_def chat_request_for_def)
    have s1: "sent w1 = sent w @ [?rq1]" and p1: "provider w1 = provider w"
      using makeRequest_sent[OF m1] by (simp_all add: chat_request_for_def)
    show ?thesis
    proof (cases "temperature_rejection JSON_parse (body r1)")
      case False
      with m1 bad s1 show ?thesis
        by (simp add: callOpenAI_def Let_def shouldRetry_iff)
    next
      case True
      obtain x2 w2 where m2: "makeRequest apiKey model systemPrompt ?p False w1 = (x2, w2)"
        by (cases "makeRequest apiKey model systemPrompt ?p False w1")
      have s2: "sent w2 = sent w @ [?rq1, ?rq2]"
        using makeRequest_sent(1)[OF m2] s1 by (simp add: chat_request_for_def)
      have c: "?call = (case x2 of Inl e \<Rightarrow> (Inl e, w2) | Inr r2 \<Rightarrow> (conclude JSON_parse model r2, w2))"
        using m1 m2 bad True by (simp add: callOpenAI_def Let_def shouldRetry_iff)
      have snd: "sent (snd ?call) = sent w @ [?rq1, ?rq2]"
        unfolding c using s2 by (cases x2) simp_all
      have res: "fst ?call = conclude JSON_parse model r2"
        if "provider w (sent w @ [?rq1, ?rq2]) = Responded r2" for r2
      proof -
        from that have "provider w1 (sent w1 @ [\<lparr>rq_apiKey = apiKey, rq_model = model,
             rq_system = systemPrompt, rq_user = ?p, rq_temperature = False\<rparr>]) = Responded r2"
          by (simp add: p1 s1 chat_request_for_def)
        from makeRequest_Responded[OF this] m2 have "x2 = Inr r2" by simp
        then show ?thesis unfolding c by simp
      qed
      have val: "fst ?call = Inr (validate_content JSON_parse content)"
        if "provider w (sent w @ [?rq1, ?rq2]) = Responded r2" "ok r2"
           "response_content JSON_parse r2 = Inr content" "truthy content" for r2 content
        using res[OF that(1)] that(2-4) by (simp add: conclude_def)
      from True snd res val show ?thesis by auto
    qed
  qed
  from bound main show ?thesis by blast
qed

text \<open>The two patterns that the specification names are temperature rejections.\<close>

lemma code_and_param_is_rejection:
  assumes "JSON_parse text = Some errorData"
      and "opt_prop (opt_prop errorData ''error'') ''code'' = JStr ''unsupported_value''"
      and "opt_prop (opt_prop errorData ''error'') ''param'' = JStr ''temperature''"
  shows "temperature_rejection JSON_parse text"
  using assms by (cases errorData) (simp_all add: temperature_rejection_def)

lemma message_is_rejection:
  assumes "JSON_parse text = Some errorData"
      and "opt_prop (opt_prop errorData ''error'') ''message'' = JStr m"
      and "sublist ''temperature'' m" and "sublist ''does not support'' m"
  shows "temperature_rejection JSON_parse text"
  using assms by (cases errorData) (simp_all add: temperature_rejection_def mentions_rejection_def)

theorem temperature_retry_witness:
  "provider sample_world
     (sent sample_world @ [chat_request_for ''sk'' ''gpt-4'' ''Grade.'' None ''Is the sky blue?'' JNull
                             (supportsTemperature ''gpt-4'')])
     = Responded \<lparr>status = 400, body = body_temperature\<rparr>
   \<and> \<not> ok \<lparr>status = 400, body = body_temperature\<rparr>
   \<and> temperature_rejection sample_parse body_temperature
   \<and> sent (snd (callOpenAI sample_parse ''sk'' ''Grade.'' ''Is the sky blue?'' None JNull ''gpt-4''
                   sample_world))
       = [chat_request_for ''sk'' ''gpt-4'' ''Grade.'' None ''Is the sky blue?'' JNull True,
          chat_request_for ''sk'' ''gpt-4'' ''Grade.'' None ''Is the sky blue?'' JNull False]
   \<and> fst (callOpenAI sample_parse ''sk'' ''Grade.'' ''Is the sky blue?'' None JNull ''gpt-4''
            sample_world)
       = Inr \<lparr>or_verdict = ''pass'', or_reasoning = JStr ''B is right''\<rparr>"
proof -
  let ?r1 = "\<lparr>status = 400, body = body_temperature\<rparr>"
  let ?call = "callOpenAI sample_parse ''sk'' ''Grade.'' ''Is the sky blue?'' None JNull ''gpt-4''
                 sample_world"
  have t: "supportsTemperature ''gpt-4''" by code_simp
  have a: "provider sample_world
     (sent sample_world @ [chat_request_for ''sk'' ''gpt-4'' ''Grade.'' None ''Is the sky blue?'' JNull
                             (supportsTemperature ''gpt-4'')]) = Responded ?r1"
    by (simp add: sample_world_def sample_provider_def)
  have b: "\<not> ok ?r1" by (simp add: ok_def)
  have c: "temperature_rejection sample_parse body_temperature" by code_simp
  have e: "sent sample_world = []" by (simp add: sample_world_def)
  from temperature_retry
         [where JSON_parse = sample_parse and apiKey = "''sk''" and systemPrompt = "''Grade.''"
            and questionText = "''Is the sky blue?''" and questionType = None and answerJson = JNull
            and model = "''gpt-4''" and w = sample_world and ?r1.0 = ?r1] a b c
  have d: "sent (snd ?call)
       = sent sample_world
         @ [chat_request_for ''sk'' ''gpt-4'' ''Grade.'' None ''Is the sky blue?'' JNull
              (supportsTemperature ''gpt-4''),
            chat_request_for ''sk'' ''gpt-4'' ''Grade.'' None ''Is the sky blue?'' JNull False]"
    by simp
  have f: "fst ?call = Inr \<lparr>or_verdict = ''pass'', or_reasoning = JStr ''B is right''\<rparr>"
    by code_simp
  from a b c d f show ?thesis by (simp add: t e)
qed

text \<open>
  The claim as stated fails at a first response with status 400 whose body is valid
  JSON, has no error code and no error param, and has an object as error message, while
  another field holds the words \<^verbatim>\<open>temperature does not support\<close>: calling
  \<^verbatim>\<open>includes\<close> on the message throws inside the \<^verbatim>\<open>try\<close> block, the \<^verbatim>\<open>catch\<close> searches the
  raw text, and the request is sent again instead of failing.
\<close>

theorem temperature_retry_counterexample:
  "provider (sample_world\<lparr>provider := structured_provider\<rparr>)
     [chat_request_for ''sk'' ''gpt-4'' ''Grade.'' None ''Is the sky blue?'' JNull True]
     = Responded \<lparr>status = 400, body = body_structured_message\<rparr>
   \<and> \<not> ok \<lparr>status = 400, body = body_structured_message\<rparr>
   \<and> sample_parse body_structured_message
       = Some (JObj [(''error'', JObj [(''message'', JObj [(''detail'', JStr ''bad request'')]),
                                      (''hint'', JStr ''temperature does not support 0'')])])
   \<and> opt_prop (JObj [(''message'', JObj [(''detail'', JStr ''bad request'')]),
                     (''hint'', JStr ''temperature does not support 0'')]) ''code'' = JUndefined
   \<and> opt_prop (JObj [(''message'', JObj [(''detail'', JStr ''bad request'')]),
                     (''hint'', JStr ''temperature does not support 0'')]) ''param'' = JUndefined
   \<and> opt_prop (JObj [(''message'', JObj [(''detail'', JStr ''bad request'')]),
                     (''hint'', JStr ''temperature does not support 0'')]) ''message''
       = JObj [(''detail'', JStr ''bad request'')]
   \<and> sent (snd (callOpenAI sample_parse ''sk'' ''Grade.'' ''Is the sky blue?'' None JNull ''gpt-4''
                   (sample_world\<lparr>provider := structured_provider\<rparr>)))
       = [chat_request_for ''sk'' ''gpt-4'' ''Grade.'' None ''Is the sky blue?'' JNull True,
          chat_request_for ''sk'' ''gpt-4'' ''Grade.'' None ''Is the sky blue?'' JNull False]
   \<and> fst (callOpenAI sample_parse ''sk'' ''Grade.'' ''Is the sky blue?'' None JNull ''gpt-4''
            (sample_world\<lparr>provider := structured_provider\<rparr>))
       = Inr \<lparr>or_verdict = ''pass'', or_reasoning = JStr ''B is right''\<rparr>"
  by code_simp

section \<open>Properties of the Batch Runner\<close>

lemma db_request_no_faults: "db_faults w = [] \<Longrightarrow> db_request w = (None, w)"
  by (simp add: db_request_def)

lemma set_unique_in_order: "set (unique_in_order xs) = set xs"
  by (simp add: unique_in_order_def)

lemma is_error_including_self: "is_error_including (new_Error m) m"
  by (simp add: new_Error_def str_includes_def)

lemma getSubmissions_no_faults:
  assumes "db_faults w = []"
  shows "getSubmissionsForWorkspace workspaceId w =
     (if workspace_submissions w workspaceId = []
      then (Inl (new_Error ''No submissions found in workspace''), w)
      else (Inr (workspace_submissions w workspaceId), w))"
  using db_request_no_faults[OF assms]
  by (simp add: getSubmissionsForWorkspace_def workspace_submissions_def Let_def)

lemma getQuestions_no_faults:
  assumes "db_faults w = []"
  shows "\<exists>qs. map qd_id qs = workspace_questions w workspaceId
     \<and> getQuestionsForSubmissions (workspace_submissions w workspaceId) w =
     (if workspace_questions w workspaceId = []
      then (Inl (new_Error ''No questions found''), w)
      else (Inr qs, w))"
  using db_request_no_faults[OF assms]
  by (simp add: getQuestionsForSubmissions_def workspace_questions_def Let_def comp_def)

lemma getAnswers_no_faults:
  assumes "db_faults w = []"
  shows "\<exists>m. getAnswersForQuestions questionIds w = (Inr m, w)"
  using db_request_no_faults[OF assms]
  by (simp add: getAnswersForQuestions_def Let_def)

lemma getJudgeAssignments_no_faults:
  assumes "db_faults w = []" and "workspace_questions w workspaceId \<noteq> []"
  shows "getJudgeAssignments (workspace_questions w workspaceId) w =
     (if workspace_assignments w workspaceId = []
      then (Inl (new_Error ''No judge assignments found''), w)
      else (Inr (workspace_assignments w workspaceId), w))"
  using db_request_no_faults[OF assms(1)] assms(2)
  by (simp add: getJudgeAssignments_def workspace_assignments_def Let_def)

lemma getJudgesForUser_no_judges:
  assumes "db_faults w = []" and "workspace_assignments w workspaceId \<noteq> []"
      and "owned_judges w workspaceId userId = []"
  shows "getJudgesForUser (unique_in_order (map judge_id (workspace_assignments w workspaceId))) userId w
           = (Inl (new_Error ''No judges found''), w)"
proof -
  have "set (unique_in_order (map judge_id (workspace_assignments w workspaceId))) \<noteq> {}"
    using assms(2) by (simp add: set_unique_in_order)
  then have ne: "unique_in_order (map judge_id (workspace_assignments w workspaceId)) \<noteq> []"
    by auto
  from assms(3) have "filter (\<lambda>j. j_id j \<in> set (unique_in_order (map judge_id (workspace_assignments w workspaceId)))
                  \<and> j_user_id j = userId) (judges w) = []"
    by (simp add: owned_judges_def set_unique_in_order)
  with ne db_request_no_faults[OF assms(1)] show ?thesis
    by (simp add: getJudgesForUser_def Let_def)
qed

lemma run_batch_resolution:
  assumes db: "db_faults w = []"
  shows "(workspace_submissions w workspaceId = [] \<longrightarrow>
            run_batch JSON_parse apiKey workspaceId userId w
              = (Inl (new_Error ''No submissions found in workspace''), w))
       \<and> (workspace_submissions w workspaceId \<noteq> [] \<and> workspace_questions w workspaceId = [] \<longrightarrow>
            run_batch JSON_parse apiKey workspaceId userId w
              = (Inl (new_Error ''No questions found''), w))
       \<and> (workspace_questions w workspaceId \<noteq> [] \<and> workspace_assignments w workspaceId = [] \<longrightarrow>
            run_batch JSON_parse apiKey workspaceId userId w = (Inr (successResponse []), w))
       \<and> (workspace_assignments w workspaceId \<noteq> [] \<and> owned_judges w workspaceId userId = [] \<longrightarrow>
            run_batch JSON_parse apiKey workspaceId userId w = (Inr (successResponse []), w))"
proof -
  note subs = getSubmissions_no_faults[OF db, of workspaceId]
  obtain qs where qs: "map qd_id qs = workspace_questions w workspaceId"
    and getq: "getQuestionsForSubmissions (workspace_submissions w workspaceId) w =
     (if workspace_questions w workspaceId = [] then (Inl (new_Error ''No questions found''), w)
      else (Inr qs, w))"
    using getQuestions_no_faults[OF db, of workspaceId] by blast
  obtain m where ans: "getAnswersForQuestions (map qd_id qs) w = (Inr m, w)"
    using getAnswers_no_faults[OF db] by blast
  have q_sub: "workspace_questions w workspaceId \<noteq> [] \<Longrightarrow> workspace_submissions w workspaceId \<noteq> []"
    by (auto simp: workspace_questions_def)
  have a_q: "workspace_assignments w workspaceId \<noteq> [] \<Longrightarrow> workspace_questions w workspaceId \<noteq> []"
    by (auto simp: workspace_assignments_def)
  have 1: "run_batch JSON_parse apiKey workspaceId userId w
              = (Inl (new_Error ''No submissions found in workspace''), w)"
    if "workspace_submissions w workspaceId = []"
    using that subs by (simp add: run_batch_def)
  have 2: "run_batch JSON_parse apiKey workspaceId userId w = (Inl (new_Error ''No questions found''), w)"
    if "workspace_submissions w workspaceId \<noteq> []" "workspace_questions w workspaceId = []"
    using that subs getq by (simp add: run_batch_def)
  have 3: "run_batch JSON_parse apiKey workspaceId userId w = (Inr (successResponse []), w)"
    if "workspace_questions w workspaceId \<noteq> []" "workspace_assignments w workspaceId = []"
    using that q_sub subs getq ans qs getJudgeAssignments_no_faults[OF db that(1)]
    by (simp add: run_batch_def resolve_and_evaluate_def is_error_including_self)
  have 4: "run_batch JSON_parse apiKey workspaceId userId w = (Inr (successResponse []), w)"
    if "workspace_assignments w workspaceId \<noteq> []" "owned_judges w workspaceId userId = []"
    using that a_q[OF that(1)] q_sub[OF a_q[OF that(1)]] subs getq ans qs
      getJudgeAssignments_no_faults[OF db a_q[OF that(1)]]
      getJudgesForUser_no_judges[OF db that]
    by (simp add: run_batch_def resolve_and_evaluate_def is_error_including_self)
  from 1 2 3 4 show ?thesis by blast
qed

text \<open>
  C7. With the API key configured, both request fields present and the database
  answering every query, the run fails with an error response when the workspace has no
  submissions and when its submissions have no questions, and it succeeds with
  \<^verbatim>\<open>processed\<close> 0 and an empty results list when the questions have no assignments and
  when no assigned judge is owned by the requesting user.
\<close>

theorem resolution_outcomes:
  assumes "OPENAI_SECRET_KEY = Some apiKey" and "apiKey \<noteq> []"
      and "req_method req \<noteq> ''OPTIONS''" and "req_json req = Inr payload"
      and "get_prop payload ''workspaceId'' = Inr workspaceId" and "truthy workspaceId"
      and "get_prop payload ''userId'' = Inr userId" and "truthy userId"
      and "db_faults w = []"
  shows "(workspace_submissions w (js_to_string workspaceId) = [] \<longrightarrow>
            serve JSON_parse OPENAI_SECRET_KEY req w
              = (Failure ''No submissions found in workspace'' 500, w))
       \<and> (workspace_submissions w (js_to_string workspaceId) \<noteq> []
          \<and> workspace_questions w (js_to_string workspaceId) = [] \<longrightarrow>
            serve JSON_parse OPENAI_SECRET_KEY req w = (Failure ''No questions found'' 500, w))
       \<and> (workspace_questions w (js_to_string workspaceId) \<noteq> []
          \<and> workspace_assignments w (js_to_string workspaceId) = [] \<longrightarrow>
            serve JSON_parse OPENAI_SECRET_KEY req w
              = (Success \<lparr>sm_success = True, processed = 0, passed = 0, failed = 0,
                          inconclusive = 0, results = []\<rparr>, w))
       \<and> (workspace_assignments w (js_to_string workspaceId) \<noteq> []
          \<and> owned_judges w (js_to_string workspaceId) (js_to_string userId) = [] \<longrightarrow>
            serve JSON_parse OPENAI_SECRET_KEY req w
              = (Success \<lparr>sm_success = True, processed = 0, passed = 0, failed = 0,
                          inconclusive = 0, results = []\<rparr>, w))"
proof -
  have s: "serve JSON_parse OPENAI_SECRET_KEY req w =
     (case run_batch JSON_parse apiKey (js_to_string workspaceId) (js_to_string userId) w of
        (Inr response, w') \<Rightarrow> (response, w')
      | (Inl err, w') \<Rightarrow> (errorResponse (message_or_unknown err) 500, w'))"
    using assms(1-8) by (simp add: serve_def serve_try_def)
  from run_batch_resolution[OF assms(9), of "js_to_string workspaceId" JSON_parse apiKey "js_to_string userId"]
  show ?thesis
    unfolding s
    by (auto simp: errorResponse_def new_Error_def successResponse_def)
qed

theorem resolution_outcomes_witness:
  "fst (serve sample_parse (Some ''sk'') (request_for ''w0'') sample_world)
     = Failure ''No submissions found in workspace'' 500
   \<and> fst (serve sample_parse (Some ''sk'') (request_for ''w2'') sample_world)
     = Failure ''No questions found'' 500
   \<and> fst (serve sample_parse (Some ''sk'') (request_for ''w1'')
            (sample_world\<lparr>judge_assignments := []\<rparr>))
     = Success \<lparr>sm_success = True, processed = 0, passed = 0, failed = 0,
                inconclusive = 0, results = []\<rparr>
   \<and> fst (serve sample_parse (Some ''sk'') (request_for ''w1'')
            (sample_world\<lparr>judges := foreign_judges\<rparr>))
     = Success \<lparr>sm_success = True, processed = 0, passed = 0, failed = 0,
                inconclusive = 0, results = []\<rparr>"
proof -
  have T: "(workspace_submissions w wid = [] \<longrightarrow>
            serve sample_parse (Some ''sk'') (request_for wid) w
              = (Failure ''No submissions found in workspace'' 500, w))
       \<and> (workspace_submissions w wid \<noteq> [] \<and> workspace_questions w wid = [] \<longrightarrow>
            serve sample_parse (Some ''sk'') (request_for wid) w
              = (Failure ''No questions found'' 500, w))
       \<and> (workspace_questions w wid \<noteq> [] \<and> workspace_assignments w wid = [] \<longrightarrow>
            serve sample_parse (Some ''sk'') (request_for wid) w
              = (Success \<lparr>sm_success = True, processed = 0, passed = 0, failed = 0,
                          inconclusive = 0, results = []\<rparr>, w))
       \<and> (workspace_assignments w wid \<noteq> [] \<and> owned_judges w wid ''u1'' = [] \<longrightarrow>
            serve sample_parse (Some ''sk'') (request_for wid) w
              = (Success \<lparr>sm_success = True, processed = 0, passed = 0, failed = 0,
                          inconclusive = 0, results = []\<rparr>, w))"
    if "db_faults w = []" and "wid \<noteq> []" for w wid
    using resolution_outcomes
            [where JSON_parse = sample_parse and OPENAI_SECRET_KEY = "Some ''sk''"
               and apiKey = "''sk''" and req = "request_for wid"
               and payload = "JObj [(''workspaceId'', JStr wid), (''userId'', JStr ''u1'')]"
               and workspaceId = "JStr wid" and userId = "JStr ''u1''" and w = w] that
    by (simp add: request_for_def)
  have a: "workspace_submissions sample_world ''w0'' = []"
    by (simp add: workspace_submissions_def sample_world_def)
  have b: "workspace_submissions sample_world ''w2'' \<noteq> []"
          "workspace_questions sample_world ''w2'' = []"
    by (simp_all add: workspace_submissions_def workspace_questions_def sample_world_def)
  have c: "workspace_questions (sample_world\<lparr>judge_assignments := []\<rparr>) ''w1'' \<noteq> []"
          "workspace_assignments (sample_world\<lparr>judge_assignments := []\<rparr>) ''w1'' = []"
    by (simp_all add: workspace_submissions_def workspace_questions_def workspace_assignments_def
          sample_world_def)
  have d: "workspace_assignments (sample_world\<lparr>judges := foreign_judges\<rparr>) ''w1'' \<noteq> []"
          "owned_judges (sample_world\<lparr>judges := foreign_judges\<rparr>) ''w1'' ''u1'' = []"
    by (simp_all add: workspace_submissions_def workspace_questions_def workspace_assignments_def
          owned_judges_def sample_world_def foreign_judges_def)
  have 1: "fst (serve sample_parse (Some ''sk'') (request_for ''w0'') sample_world)
     = Failure ''No submissions found in workspace'' 500"
    using T[of sample_world "''w0''"] a by (simp add: sample_world_def)
  have 2: "fst (serve sample_parse (Some ''sk'') (request_for ''w2'') sample_world)
     = Failure ''No questions found'' 500"
    using T[of sample_world "''w2''"] b by (simp add: sample_world_def)
  have 3: "fst (serve sample_parse (Some ''sk'') (request_for ''w1'')
                 (sample_world\<lparr>judge_assignments := []\<rparr>))
     = Success \<lparr>sm_success = True, processed = 0, passed = 0, failed = 0,
                inconclusive = 0, results = []\<rparr>"
    using T[of "sample_world\<lparr>judge_assignments := []\<rparr>" "''w1''"] c by (simp add: sample_world_def)
  have 4: "fst (serve sample_parse (Some ''sk'') (request_for ''w1'')
                 (sample_world\<lparr>judges := foreign_judges\<rparr>))
     = Success \<lparr>sm_success = True, processed = 0, passed = 0, failed = 0,
                inconclusive = 0, results = []\<rparr>"
    using T[of "sample_world\<lparr>judges := foreign_judges\<rparr>" "''w1''"] d by (simp add: sample_world_def)
  from 1 2 3 4 show ?thesis by blast
qed

text \<open>
  C1 at two runs that complete. In the first the questions of the workspace have no
  assignment; in the second the assigned judge belongs to another user. Both runs
  return success with nothing processed, and both leave the stored evaluations of
  question \<open>q1\<close> as they were, among them the one of the pair \<open>(q1, j2)\<close>, which no
  assignment holds: the two early returns of steps 4 and 5 come before the
  reconciliation of step 6. A run that gets past them deletes that row.
\<close>

theorem stale_evaluations_survive_early_return:
  "workspace_assignments (sample_world\<lparr>judge_assignments := []\<rparr>) ''w1'' = []
   \<and> fst (serve sample_parse (Some ''sk'') sample_request (sample_world\<lparr>judge_assignments := []\<rparr>))
       = Success \<lparr>sm_success = True, processed = 0, passed = 0, failed = 0,
                  inconclusive = 0, results = []\<rparr>
   \<and> evaluations (snd (serve sample_parse (Some ''sk'') sample_request
                          (sample_world\<lparr>judge_assignments := []\<rparr>)))
       = [\<lparr>ev_id = 7, ev_submission_id = ''s1'', ev_question_id = ''q1'',
           ev_judge_id = ''j2'', ev_verdict = ''fail'', ev_reasoning = JNull\<rparr>,
          \<lparr>ev_id = 8, ev_submission_id = ''s1'', ev_question_id = ''q1'',
           ev_judge_id = ''j1'', ev_verdict = ''fail'', ev_reasoning = JNull\<rparr>,
          \<lparr>ev_id = 9, ev_submission_id = ''s9'', ev_question_id = ''q9'',
           ev_judge_id = ''j2'', ev_verdict = ''pass'', ev_reasoning = JNull\<rparr>]
   \<and> workspace_assignments
         (sample_world\<lparr>judges := foreign_judges\<rparr>) ''w1''
       = [\<lparr>judge_id = ''j1'', question_id = ''q1''\<rparr>]
   \<and> fst (serve sample_parse (Some ''sk'') sample_request
            (sample_world\<lparr>judges := foreign_judges\<rparr>))
       = Success \<lparr>sm_success = True, processed = 0, passed = 0, failed = 0,
                  inconclusive = 0, results = []\<rparr>
   \<and> evaluations (snd (serve sample_parse (Some ''sk'') sample_request
            (sample_world\<lparr>judges := foreign_judges\<rparr>)))
       = [\<lparr>ev_id = 7, ev_submission_id = ''s1'', ev_question_id = ''q1'',
           ev_judge_id = ''j2'', ev_verdict = ''fail'', ev_reasoning = JNull\<rparr>,
          \<lparr>ev_id = 8, ev_submission_id = ''s1'', ev_question_id = ''q1'',
           ev_judge_id = ''j1'', ev_verdict = ''fail'', ev_reasoning = JNull\<rparr>,
          \<lparr>ev_id = 9, ev_submission_id = ''s9'', ev_question_id = ''q9'',
           ev_judge_id = ''j2'', ev_verdict = ''pass'', ev_reasoning = JNull\<rparr>]
   \<and> evaluations (snd (serve sample_parse (Some ''sk'') sample_request sample_world))
       = [\<lparr>ev_id = 8, ev_submission_id = ''s1'', ev_question_id = ''q1'',
           ev_judge_id = ''j1'', ev_verdict = ''pass'', ev_reasoning = JStr ''B is right''\<rparr>,
          \<lparr>ev_id = 9, ev_submission_id = ''s9'', ev_question_id = ''q9'',
           ev_judge_id = ''j2'', ev_verdict = ''pass'', ev_reasoning = JNull\<rparr>]"
  by code_simp

text \<open>
  C6 at a run over a question that has no answer row. The run succeeds, but the payload
  that reaches the Prompt Builder is \<open>undefined\<close> (what \<^verbatim>\<open>answerMap.get\<close> returns for a
  missing key replaces the \<open>null\<close> that \<^verbatim>\<open>getQuestionsForSubmissions\<close> had set), so the
  prompt sent to the provider reads \<^verbatim>\<open>undefined\<close> where the prompt for a \<open>null\<close>
  payload reads \<^verbatim>\<open>null\<close>.
\<close>

theorem missing_answer_prompt_says_undefined:
  "answers sample_world = []
   \<and> fst (serve sample_parse (Some ''sk'') sample_request sample_world)
       = Success \<lparr>sm_success = True, processed = 1, passed = 1, failed = 0, inconclusive = 0,
                  results = [\<lparr>questionId = ''q1'', judgeId = ''j1'', verdict = ''pass'',
                              success = True, error = None\<rparr>]\<rparr>
   \<and> map rq_user (sent (snd (serve sample_parse (Some ''sk'') sample_request sample_world)))
       = [lines_text [''Question: Is the sky blue?'', [], ''Answer JSON:'', ''undefined'', [],
                      respond_line_default],
          lines_text [''Question: Is the sky blue?'', [], ''Answer JSON:'', ''undefined'', [],
                      respond_line_default]]
   \<and> buildTypeSpecificPrompt None ''Is the sky blue?'' JNull
       = lines_text [''Question: Is the sky blue?'', [], ''Answer JSON:'', ''null'', [],
                     respond_line_default]"
  by code_simp

end
